theory Spec2Isabelle
  imports Main "HOL-Library.Sublist"
begin

section \<open>Strings, as the Go standard library treats them\<close>

text \<open>
  Go strings are byte sequences; they are modelled as \<^typ>\<open>string\<close>. The helpers of
  package \<open>strings\<close> that the git layer uses are written out for ASCII input (the
  output of the git command line that the code inspects is ASCII).
\<close>

definition newline :: char where
  "newline = CHR 0x0A"

definition isSpace :: "char \<Rightarrow> bool" where
  "isSpace c = (c \<in> set [CHR 0x20, CHR 0x09, CHR 0x0A, CHR 0x0B, CHR 0x0C, CHR 0x0D])"

definition TrimSpace :: "string \<Rightarrow> string" where
  "TrimSpace s = rev (dropWhile isSpace (rev (dropWhile isSpace s)))"

text \<open>\<open>strings.Trim(s, cutset)\<close> removes every leading and trailing byte that occurs in the cutset.\<close>

definition Trim :: "string \<Rightarrow> string \<Rightarrow> string" where
  "Trim s cutset = rev (dropWhile (\<lambda>c. c \<in> set cutset) (rev (dropWhile (\<lambda>c. c \<in> set cutset) s)))"

definition HasPrefix :: "string \<Rightarrow> string \<Rightarrow> bool" where
  "HasPrefix s p = prefix p s"

fun Contains :: "string \<Rightarrow> string \<Rightarrow> bool" where
  "Contains [] sub = (sub = [])"
| "Contains (c # s) sub = (prefix sub (c # s) \<or> Contains s sub)"

definition lowerChar :: "char \<Rightarrow> char" where
  "lowerChar c = (let n = (of_char c :: nat) in if 65 \<le> n \<and> n \<le> 90 then char_of (n + 32) else c)"

definition ToLower :: "string \<Rightarrow> string" where
  "ToLower s = map lowerChar s"

fun joinWith :: "string \<Rightarrow> string list \<Rightarrow> string" where
  "joinWith sep [] = []"
| "joinWith sep [x] = x"
| "joinWith sep (x # y # ys) = x @ sep @ joinWith sep (y # ys)"

text \<open>The \<open>%v\<close> (and \<open>%s\<close>) rendering of a slice of strings by \<open>fmt\<close>: \<open>[a b c]\<close>.\<close>

definition showSlice :: "string list \<Rightarrow> string" where
  "showSlice xs = ''['' @ joinWith '' '' xs @ '']''"

text \<open>
  The lines a \<open>bufio.Scanner\<close> yields with its default split function \<open>ScanLines\<close>:
  the input cut at every newline, one carriage return at the end of a line dropped
  (\<open>dropCR\<close>, also on a last line that no newline ends), and no final empty line. (The
  scanner's limit on the length of one line is not modelled.)
\<close>

definition dropCR :: "string \<Rightarrow> string" where
  "dropCR l = (if l \<noteq> [] \<and> last l = CHR 0x0D then butlast l else l)"

fun scanFrom :: "string \<Rightarrow> string \<Rightarrow> string list" where
  "scanFrom acc [] = (if acc = [] then [] else [dropCR acc])"
| "scanFrom acc (c # cs) =
     (if c = newline then dropCR acc # scanFrom [] cs else scanFrom (acc @ [c]) cs)"

definition scanLines :: "string \<Rightarrow> string list" where
  "scanLines s = scanFrom [] s"

section \<open>Errors\<close>

text \<open>
  Every value of Go's \<open>error\<close> interface that the code creates or passes on. The four
  sentinel errors and \<open>NotReadyError\<close> are declared in \<open>repo.go\<close>; \<open>ErrorString\<close> is
  \<open>errors.New\<close>, \<open>Wrapped\<close> is \<open>errors.Wrap\<close> of \<open>github.com/pkg/errors\<close>, \<open>ExitError\<close> is what
  \<open>exec.Cmd.Run\<close> returns, \<open>CtxDeadlineExceeded\<close> and \<open>CtxCanceled\<close> are the two errors of
  package \<open>context\<close>, \<open>MarshalError\<close> and \<open>DecodeError\<close> come from \<open>encoding/json\<close>.
  A nil error is \<open>None\<close> of \<^typ>\<open>'a option\<close>.
\<close>

datatype error =
    ErrNoChanges
  | ErrNoConfig
  | ErrNotCloned
  | ErrClonedOnly
  | NotReadyError "error option"
  | ErrorString string
  | ExitError string
  | CtxDeadlineExceeded
  | CtxCanceled
  | Wrapped error string
  | PushError string error
  | MarshalError string
  | DecodeError string
  | TempDirError string

text \<open>
  Modelled from the spec: the constructor \<open>PushError\<close> above stands for the function
  \<open>PushError(url, err)\<close>, which is called in \<open>working.go\<close> and declared in another file
  of the package; the spec describes its result as a distinguished push error carrying the target
  remote.
\<close>

text \<open>
  The text of \<open>err.Error()\<close>, where the code fixes it. It is \<open>None\<close> for a
  \<open>NotReadyError\<close> without an underlying error (the method dereferences it) and for errors
  whose text is produced elsewhere.
\<close>

fun Error :: "error \<Rightarrow> string option" where
  "Error ErrNoChanges = Some ''no changes made in repo''"
| "Error ErrNoConfig = Some ''git repo does not have valid config''"
| "Error ErrNotCloned = Some ''git repo has not been cloned yet''"
| "Error ErrClonedOnly = Some ''git repo has been cloned but not yet checked for write access''"
| "Error (NotReadyError None) = None"
| "Error (NotReadyError (Some e)) = map_option (\<lambda>m. ''git repo not ready: '' @ m) (Error e)"
| "Error (ErrorString m) = Some m"
| "Error (ExitError m) = Some m"
| "Error CtxDeadlineExceeded = Some ''context deadline exceeded''"
| "Error CtxCanceled = Some ''context canceled''"
| "Error (Wrapped e m) = map_option (\<lambda>c. m @ '': '' @ c) (Error e)"
| "Error (PushError u e) = None"
| "Error (MarshalError m) = Some m"
| "Error (DecodeError m) = Some m"
| "Error (TempDirError m) = Some m"

text \<open>\<open>strings.Contains(err.Error(), sub)\<close>.\<close>

definition errorContains :: "error \<Rightarrow> string \<Rightarrow> bool" where
  "errorContains e sub = (case Error e of Some m \<Rightarrow> Contains m sub | None \<Rightarrow> False)"

section \<open>The process layer\<close>

text \<open>
  The code reaches the outside world through \<open>os/exec\<close> (one run of the \<open>git\<close> binary),
  \<open>os.LookupEnv\<close>, \<open>os.RemoveAll\<close> and \<open>ioutil.TempDir\<close>. These are parameters of the model: a
  record of functions over a state of the outside world, of any type \<open>'w\<close>. One run of
  \<open>git\<close> yields the error of \<open>Cmd.Run\<close> (if any), what the process wrote to its standard
  output and standard error, and the state of the call's context when the run is over.
\<close>

datatype ctxState = CtxLive | CtxTimedOut | CtxCancelled

record procResult =
  runErr :: "string option"
  stdout :: string
  stderr :: string
  ctxAfter :: ctxState

record 'w os =
  runGit :: "string \<Rightarrow> string list \<Rightarrow> string list \<Rightarrow> 'w \<Rightarrow> procResult \<times> 'w"
  lookupEnv :: "string \<Rightarrow> string option"
  removeAll :: "string \<Rightarrow> 'w \<Rightarrow> 'w"
  tempDir :: "string \<Rightarrow> 'w \<Rightarrow> (error + string) \<times> 'w"

text \<open>
  The state the model threads through every call: the outside world, and the lines that
  \<open>execGitCmd\<close> prints when the constant \<open>trace\<close> is set (one line per invocation of
  \<open>git\<close>, holding its arguments; kept as the list of arguments).
\<close>

record 'w sys =
  world :: 'w
  traced :: "string list list"

record gitCmdConfig =
  cmdDir :: string
  cmdEnv :: "string list"

section \<open>The git primitives\<close>

definition trace :: bool where
  "trace = True"

definition allowedEnvVars :: "string list" where
  "allowedEnvVars = [''http_proxy'', ''https_proxy'', ''no_proxy'', ''HOME'', ''GNUPGHOME'']"

definition env_of :: "'w os \<Rightarrow> string list" where
  "env_of E = ''GIT_TERMINAL_PROMPT=0'' #
     concat (map (\<lambda>k. case lookupEnv E k of Some v \<Rightarrow> [k @ ''='' @ v] | None \<Rightarrow> []) allowedEnvVars)"

fun findInLines :: "string list \<Rightarrow> string" where
  "findInLines [] = []"
| "findInLines (l # ls) =
     (if HasPrefix l ''fatal: '' then l
      else if HasPrefix l ''ERROR fatal: '' then l
      else if HasPrefix l ''error:'' then Trim l ''error: ''
      else findInLines ls)"

definition findErrorMessage :: "string \<Rightarrow> string" where
  "findErrorMessage output = findInLines (scanLines output)"

text \<open>
  \<open>execGitCmd\<close> returns its error, and here also the standard output of the process: the
  source writes it to the buffer \<open>config.out\<close> when the caller supplies one and discards it
  otherwise, so a caller that passes no buffer ignores this component.
\<close>

definition execGitCmd :: "'w os \<Rightarrow> string list \<Rightarrow> gitCmdConfig \<Rightarrow> 'w sys \<Rightarrow> error option \<times> string \<times> 'w sys" where
  "execGitCmd E args config s =
     (let s1 = (if trace then s\<lparr>traced := traced s @ [args]\<rparr> else s);
          (p, w) = runGit E (cmdDir config) (env_of E @ cmdEnv config) args (world s1);
          s2 = s1\<lparr>world := w\<rparr>;
          err = (case runErr p of
                   None \<Rightarrow> None
                 | Some x \<Rightarrow>
                     (let msg = findErrorMessage (stderr p)
                      in if msg \<noteq> [] then Some (ErrorString msg) else Some (ExitError x)))
      in if ctxAfter p = CtxTimedOut
         then (Some (Wrapped CtxDeadlineExceeded (''running git command: git '' @ showSlice args)), stdout p, s2)
         else if ctxAfter p = CtxCancelled
         then (Some (Wrapped CtxCanceled
                 (''context was unexpectedly cancelled when running git command: git '' @ showSlice args)),
               stdout p, s2)
         else (err, stdout p, s2))"

definition inDir :: "string \<Rightarrow> gitCmdConfig" where
  "inDir d = \<lparr>cmdDir = d, cmdEnv = []\<rparr>"


text \<open>
  \<open>config\<close> ranges over a Go map with the two keys \<open>user.name\<close> and \<open>user.email\<close>; the
  order of that iteration is chosen by the runtime, so it is an argument here
  (\<open>nameFirst\<close>). The first failing command ends the loop.
\<close>

definition config :: "'w os \<Rightarrow> bool \<Rightarrow> string \<Rightarrow> string \<Rightarrow> string \<Rightarrow> 'w sys \<Rightarrow> error option \<times> 'w sys" where
  "config E nameFirst workingDir user email s =
     (let kvs = (if nameFirst then [(''user.name'', user), (''user.email'', email)]
                 else [(''user.email'', email), (''user.name'', user)]);
          (err1, _, s1) = execGitCmd E [''config'', fst (kvs ! 0), snd (kvs ! 0)] (inDir workingDir) s
      in case err1 of
           Some e \<Rightarrow> (Some (Wrapped e ''setting git config''), s1)
         | None \<Rightarrow>
             (let (err2, _, s2) = execGitCmd E [''config'', fst (kvs ! 1), snd (kvs ! 1)] (inDir workingDir) s1
              in case err2 of
                   Some e \<Rightarrow> (Some (Wrapped e ''setting git config''), s2)
                 | None \<Rightarrow> (None, s2)))"

definition mirror :: "'w os \<Rightarrow> string \<Rightarrow> string \<Rightarrow> 'w sys \<Rightarrow> (string \<times> error option) \<times> 'w sys" where
  "mirror E workingDir repoURL s =
     (let repoPath = workingDir;
          (err, _, s1) = execGitCmd E [''clone'', ''--mirror'', repoURL, repoPath] (inDir workingDir) s
      in case err of
           Some e \<Rightarrow> (([], Some (Wrapped e ''git clone --mirror'')), s1)
         | None \<Rightarrow> ((repoPath, None), s1))"

definition checkPushTag :: string where
  "checkPushTag = ''flux-write-check''"

definition checkPush :: "'w os \<Rightarrow> string \<Rightarrow> string \<Rightarrow> 'w sys \<Rightarrow> error option \<times> 'w sys" where
  "checkPush E workingDir upstreamURL s =
     (let (err1, _, s1) = execGitCmd E [''tag'', ''--force'', checkPushTag] (inDir workingDir) s
      in case err1 of
           Some e \<Rightarrow> (Some (Wrapped e ''tag for write check''), s1)
         | None \<Rightarrow>
             (let (err2, _, s2) =
                    execGitCmd E [''push'', ''--force'', upstreamURL, ''tag'', checkPushTag] (inDir workingDir) s1
              in case err2 of
                   Some e \<Rightarrow> (Some (Wrapped e ''attempt to push tag''), s2)
                 | None \<Rightarrow>
                     (let (err3, _, s3) =
                            execGitCmd E [''push'', ''--delete'', upstreamURL, ''tag'', checkPushTag] (inDir workingDir) s2
                      in (err3, s3))))"

record CommitAction =
  Author :: string
  Message :: string
  SigningKey :: string

definition commit :: "'w os \<Rightarrow> string \<Rightarrow> CommitAction \<Rightarrow> 'w sys \<Rightarrow> error option \<times> 'w sys" where
  "commit E workingDir commitAction s =
     (let args = [''commit'', ''--no-verify'', ''--all'', ''--message'', Message commitAction]
                 @ (if Author commitAction \<noteq> [] then [''--author'', Author commitAction] else [])
                 @ (if SigningKey commitAction \<noteq> [] then [''--gpg-sign='' @ SigningKey commitAction] else []);
          (err, _, s1) = execGitCmd E args (inDir workingDir) s
      in case err of
           Some e \<Rightarrow> (Some (Wrapped e ''git commit''), s1)
         | None \<Rightarrow> (None, s1))"

definition push :: "'w os \<Rightarrow> string \<Rightarrow> string \<Rightarrow> string list \<Rightarrow> 'w sys \<Rightarrow> error option \<times> 'w sys" where
  "push E workingDir upstream refs s =
     (let args = [''push'', upstream] @ refs;
          (err, _, s1) = execGitCmd E args (inDir workingDir) s
      in case err of
           Some e \<Rightarrow> (Some (Wrapped e (''git push '' @ upstream @ '' '' @ showSlice refs)), s1)
         | None \<Rightarrow> (None, s1))"

definition noRemoteRef :: string where
  "noRemoteRef = ''Couldn'' @ [CHR 0x27] @ ''t find remote ref''"

definition fetch :: "'w os \<Rightarrow> string \<Rightarrow> string \<Rightarrow> string list \<Rightarrow> 'w sys \<Rightarrow> error option \<times> 'w sys" where
  "fetch E workingDir upstream refspec s =
     (let args = [''fetch'', ''--tags'', upstream] @ refspec;
          (err, _, s1) = execGitCmd E args (inDir workingDir) s
      in case err of
           Some e \<Rightarrow>
             (if \<not> errorContains e noRemoteRef
              then (Some (Wrapped e (''git fetch --tags '' @ upstream @ '' '' @ showSlice refspec)), s1)
              else (None, s1))
         | None \<Rightarrow> (None, s1))"

definition refExists :: "'w os \<Rightarrow> string \<Rightarrow> string \<Rightarrow> 'w sys \<Rightarrow> (bool \<times> error option) \<times> 'w sys" where
  "refExists E workingDir ref s =
     (let (err, _, s1) = execGitCmd E [''rev-list'', ref] (inDir workingDir) s
      in case err of
           Some e \<Rightarrow>
             (if errorContains e ''unknown revision'' then ((False, None), s1)
              else ((False, Some e), s1))
         | None \<Rightarrow> ((True, None), s1))"

definition getNotesRef :: "'w os \<Rightarrow> string \<Rightarrow> string \<Rightarrow> 'w sys \<Rightarrow> (string \<times> error option) \<times> 'w sys" where
  "getNotesRef E workingDir notesRef s =
     (let (err, out, s1) = execGitCmd E [''notes'', ''--ref'', notesRef, ''get-ref''] (inDir workingDir) s
      in case err of
           Some e \<Rightarrow> (([], Some e), s1)
         | None \<Rightarrow> ((TrimSpace out, None), s1))"

text \<open>
  A note is passed as \<open>interface{}\<close> and goes through \<open>encoding/json\<close>. The payload type is
  a type variable \<open>'n\<close> here, and the two library functions are parameters: \<open>Marshal\<close> is
  \<open>json.Marshal\<close>, \<open>Decode\<close> is \<open>json.NewDecoder(out).Decode(note)\<close> on the text the buffer
  holds. A nil \<open>interface{}\<close> is \<open>None\<close>.
\<close>

record 'n codec =
  Marshal :: "'n \<Rightarrow> error + string"
  Decode :: "string \<Rightarrow> error + 'n"

definition addNote :: "'n codec \<Rightarrow> 'w os \<Rightarrow> string \<Rightarrow> string \<Rightarrow> string \<Rightarrow> 'n \<Rightarrow> 'w sys \<Rightarrow> error option \<times> 'w sys" where
  "addNote J E workingDir rv notesRef note s =
     (case Marshal J note of
        Inl e \<Rightarrow> (Some e, s)
      | Inr b \<Rightarrow>
          (let (err, _, s1) =
                 execGitCmd E [''notes'', ''--ref'', notesRef, ''add'', ''--message'', b, rv] (inDir workingDir) s
           in (err, s1)))"

text \<open>
  \<open>getNote\<close> returns \<open>(ok, err)\<close> and decodes into the value its last argument points to;
  the third component here is that value after a successful decoding.
\<close>

definition getNote :: "'n codec \<Rightarrow> 'w os \<Rightarrow> string \<Rightarrow> string \<Rightarrow> string \<Rightarrow> 'w sys \<Rightarrow> (bool \<times> error option \<times> 'n option) \<times> 'w sys" where
  "getNote J E workingDir notesRef rv s =
     (let (err, out, s1) = execGitCmd E [''notes'', ''--ref'', notesRef, ''show'', rv] (inDir workingDir) s
      in case err of
           Some e \<Rightarrow>
             (if (case Error e of Some m \<Rightarrow> Contains (ToLower m) ''no note found for object'' | None \<Rightarrow> False)
              then ((False, None, None), s1)
              else ((False, Some e, None), s1))
         | None \<Rightarrow>
             (case Decode J out of
                Inl e \<Rightarrow> ((False, Some e, None), s1)
              | Inr n \<Rightarrow> ((True, None, Some n), s1)))"

definition refRevision :: "'w os \<Rightarrow> string \<Rightarrow> string \<Rightarrow> 'w sys \<Rightarrow> (string \<times> error option) \<times> 'w sys" where
  "refRevision E workingDir ref s =
     (let (err, out, s1) = execGitCmd E [''rev-list'', ''--max-count'', ''1'', ref] (inDir workingDir) s
      in case err of
           Some e \<Rightarrow> (([], Some e), s1)
         | None \<Rightarrow> ((TrimSpace out, None), s1))"

text \<open>\<open>check\<close> returns true if there are changes locally: \<open>git diff --quiet\<close> fails then.\<close>

definition check :: "'w os \<Rightarrow> string \<Rightarrow> string list \<Rightarrow> 'w sys \<Rightarrow> bool \<times> 'w sys" where
  "check E workingDir subdirs s =
     (let args = [''diff'', ''--quiet''] @ (if length subdirs > 0 then ''--'' # subdirs else []);
          (err, _, s1) = execGitCmd E args (inDir workingDir) s
      in (err \<noteq> None, s1))"

section \<open>The repository mirror\<close>

text \<open>
  Modelled from the spec: the type \<open>Remote\<close> is declared in another file of the package;
  \<open>repo.go\<close> reads its fields \<open>URL\<close> and \<open>StateMode\<close>, which the spec lists as the URL and
  the state-mode tag of a remote.
\<close>

record Remote =
  URL :: string
  StateMode :: string

definition GitTagStateMode :: string where
  "GitTagStateMode = ''GitTag''"

definition NativeStateMode :: string where
  "NativeStateMode = ''Native''"

text \<open>
  \<open>GitRepoStatus\<close> is a string type with four declared constants; no other value is ever
  assigned to a status.
\<close>

datatype GitRepoStatus = RepoNoConfig | RepoNew | RepoCloned | RepoReady

text \<open>
  A channel of \<open>struct{}\<close> values: the number of values in its buffer and the buffer's
  capacity. A \<open>select\<close> with one send (or one receive) and a \<open>default\<close> branch never blocks:
  it sends if the buffer has room and does nothing otherwise. (No goroutine is taken to
  wait in a receive at that moment: the model runs one call at a time.)
\<close>

record chan =
  queued :: nat
  capacity :: nat

definition makeChan :: "nat \<Rightarrow> chan" where
  "makeChan n = \<lparr>queued = 0, capacity = n\<rparr>"

definition trySend :: "chan \<Rightarrow> bool \<times> chan" where
  "trySend ch = (if queued ch < capacity ch then (True, ch\<lparr>queued := Suc (queued ch)\<rparr>) else (False, ch))"

definition tryRecv :: "chan \<Rightarrow> chan option" where
  "tryRecv ch = (if 0 < queued ch then Some (ch\<lparr>queued := queued ch - 1\<rparr>) else None)"

text \<open>
  The struct \<open>Repo\<close>. Durations are nanoseconds (\<open>time.Duration\<close> is a 64-bit integer, and
  the code does no arithmetic on them). The lock \<open>mu\<close> has no counterpart: every function
  below is one call run alone, from its first lock to its last unlock.
\<close>

record Repo =
  origin :: Remote
  interval :: int
  timeout :: int
  readonly :: bool
  status :: GitRepoStatus
  err :: "error option"
  dir :: string
  stateMode :: string
  notify :: chan
  C :: chan

definition defaultInterval :: int where
  "defaultInterval = 5 * 60 * 1000000000"

definition defaultTimeout :: int where
  "defaultTimeout = 20 * 1000000000"

text \<open>
  The three exported implementations of the interface \<open>Option\<close>. (The adapter type
  \<open>optionFunc\<close> is unexported and no value of it is built anywhere in the package.)
\<close>

datatype Option = PollInterval int | Timeout int | RepoIsReadOnly bool

fun apply_option :: "Option \<Rightarrow> Repo \<Rightarrow> Repo" where
  "apply_option (PollInterval p) r = r\<lparr>interval := p\<rparr>"
| "apply_option (Timeout t) r = r\<lparr>timeout := t\<rparr>"
| "apply_option (RepoIsReadOnly b) r = r\<lparr>readonly := b\<rparr>"

text \<open>\<open>getTempDirectory\<close> panics when the directory cannot be created: the result is \<open>None\<close> then.\<close>

definition getTempDirectory :: "'w os \<Rightarrow> 'w sys \<Rightarrow> string option \<times> 'w sys" where
  "getTempDirectory E s =
     (case tempDir E ''flux-gitclone'' (world s) of
        (Inl e, w) \<Rightarrow> (None, s\<lparr>world := w\<rparr>)
      | (Inr d, w) \<Rightarrow> (Some d, s\<lparr>world := w\<rparr>))"

definition NewRepo :: "'w os \<Rightarrow> Remote \<Rightarrow> Option list \<Rightarrow> 'w sys \<Rightarrow> Repo option \<times> 'w sys" where
  "NewRepo E orig opts s =
     (let st = (if URL orig = [] then RepoNoConfig else RepoNew)
      in case getTempDirectory E s of
           (None, s1) \<Rightarrow> (None, s1)
         | (Some d, s1) \<Rightarrow>
             (let r = \<lparr>origin = orig, interval = defaultInterval, timeout = defaultTimeout,
                       readonly = False, status = st, err = Some ErrNotCloned, dir = d,
                       stateMode = StateMode orig, notify = makeChan 1, C = makeChan 1\<rparr>
              in (Some (foldl (\<lambda>r opt. apply_option opt r) r opts), s1)))"

definition Clean :: "'w os \<Rightarrow> Repo \<Rightarrow> 'w sys \<Rightarrow> Repo \<times> 'w sys" where
  "Clean E r s =
     (let s1 = (if dir r \<noteq> [] then s\<lparr>world := removeAll E (dir r) (world s)\<rparr> else s)
      in (r\<lparr>dir := [], status := RepoNew\<rparr>, s1))"

definition Status :: "Repo \<Rightarrow> GitRepoStatus \<times> error option" where
  "Status r = (status r, err r)"

definition setUnready :: "GitRepoStatus \<Rightarrow> error option \<Rightarrow> Repo \<Rightarrow> Repo" where
  "setUnready st e r = r\<lparr>status := st, err := e\<rparr>"

definition setReady :: "Repo \<Rightarrow> Repo" where
  "setReady r = r\<lparr>status := RepoReady, err := None\<rparr>"

definition Notify :: "Repo \<Rightarrow> Repo" where
  "Notify r = r\<lparr>notify := snd (trySend (notify r))\<rparr>"

definition refreshed :: "Repo \<Rightarrow> Repo" where
  "refreshed r = r\<lparr>C := snd (trySend (C r))\<rparr>"

definition errorIfNotReady :: "Repo \<Rightarrow> error option" where
  "errorIfNotReady r =
     (case status r of
        RepoReady \<Rightarrow> None
      | RepoNoConfig \<Rightarrow> Some ErrNoConfig
      | _ \<Rightarrow> Some (NotReadyError (err r)))"

definition IsReadOnly :: "Repo \<Rightarrow> bool" where
  "IsReadOnly r = readonly r"

definition Repo_fetch :: "'w os \<Rightarrow> Repo \<Rightarrow> 'w sys \<Rightarrow> error option \<times> 'w sys" where
  "Repo_fetch E r s = fetch E (dir r) ''origin'' [] s"

text \<open>
  \<open>step\<close> attempts to advance the state machine and returns whether it has made progress,
  with the repo and the outside world as it leaves them. The deadline of each call's
  context is in the hands of the process layer (\<open>ctxAfter\<close>).
\<close>

definition step :: "'w os \<Rightarrow> Repo \<Rightarrow> 'w sys \<Rightarrow> bool \<times> Repo \<times> 'w sys" where
  "step E r s =
     (let url = URL (origin r); d = dir r
      in case status r of
           RepoNoConfig \<Rightarrow> (False, r, s)
         | RepoNew \<Rightarrow>
             (let ((_, err1), s1) = mirror E d url s;
                  (err2, s2) = (if err1 = None then Repo_fetch E r s1 else (err1, s1))
              in if err2 = None then (True, setUnready RepoCloned (Some ErrClonedOnly) r, s2)
                 else (False, setUnready RepoNew err2 r, s2\<lparr>world := removeAll E d (world s2)\<rparr>))
         | RepoCloned \<Rightarrow>
             (if \<not> IsReadOnly r \<or> stateMode r = GitTagStateMode
              then (let (err1, s1) = checkPush E d url s
                    in if err1 \<noteq> None then (False, setUnready RepoCloned err1 r, s1)
                       else (True, refreshed (setReady r), s1))
              else (True, refreshed (setReady r), s))
         | RepoReady \<Rightarrow> (False, r, s))"

definition Refresh :: "'w os \<Rightarrow> Repo \<Rightarrow> 'w sys \<Rightarrow> error option \<times> Repo \<times> 'w sys" where
  "Refresh E r s =
     (case errorIfNotReady r of
        Some e \<Rightarrow> (Some e, r, s)
      | None \<Rightarrow>
          (case Repo_fetch E r s of
             (Some e, s1) \<Rightarrow> (Some e, r, s1)
           | (None, s1) \<Rightarrow> (None, refreshed r, s1)))"

text \<open>
  \<open>refreshLoop\<close> blocks in a \<open>select\<close> over the shutdown channel, the poll timer and the
  notify channel. Which case fires next is decided outside the code, so the loop takes the
  list of those decisions: \<open>SelShutdown\<close>, \<open>SelTick\<close> (the timer fired), \<open>SelNotify\<close> (the
  receive from \<open>notify\<close>, which can fire only when a notification is pending) and
  \<open>CallerNotify\<close> (another goroutine calls \<open>Notify\<close> while the loop waits). The result is
  \<open>None\<close> when the decisions are used up and the loop still waits.
\<close>

datatype sel = SelShutdown | SelTick | SelNotify | CallerNotify

fun refreshLoop :: "'w os \<Rightarrow> sel list \<Rightarrow> Repo \<Rightarrow> 'w sys \<Rightarrow> (error option) option \<times> Repo \<times> 'w sys" where
  "refreshLoop E [] r s = (None, r, s)"
| "refreshLoop E (SelShutdown # evs) r s = (Some None, r, s)"
| "refreshLoop E (SelTick # evs) r s = refreshLoop E evs (Notify r) s"
| "refreshLoop E (CallerNotify # evs) r s = refreshLoop E evs (Notify r) s"
| "refreshLoop E (SelNotify # evs) r s =
     (case tryRecv (notify r) of
        None \<Rightarrow> refreshLoop E evs r s
      | Some ch \<Rightarrow>
          (case Refresh E (r\<lparr>notify := ch\<rparr>) s of
             (Some e, r1, s1) \<Rightarrow> (Some (Some e), r1, s1)
           | (None, r1, s1) \<Rightarrow> refreshLoop E evs r1 s1))"

text \<open>
  One iteration of the loop of \<open>Start\<close>: the decisions of the refresh loop it may enter,
  and whether the shutdown channel or the retry timer fires in the \<open>select\<close> at its end.
  The iteration ends by going round the loop again, by returning, or it still waits in the
  refresh loop.
\<close>

datatype 'a iteration = Continue 'a | Return 'a | Waiting 'a

definition Start_iteration :: "'w os \<Rightarrow> sel list \<Rightarrow> bool \<Rightarrow> Repo \<Rightarrow> 'w sys \<Rightarrow> (Repo \<times> 'w sys) iteration" where
  "Start_iteration E evs shutdownFires r s =
     (let (advanced, r1, s1) = step E r s;
          tryAgain = (\<lambda>x. if shutdownFires then Return x else Continue x)
      in if advanced then Continue (r1, s1)
         else if fst (Status r1) = RepoReady
         then (case refreshLoop E evs r1 s1 of
                 (None, r2, s2) \<Rightarrow> Waiting (r2, s2)
               | (Some (Some e), r2, s2) \<Rightarrow> Continue (setUnready RepoNew (Some e) r2, s2)
               | (Some None, r2, s2) \<Rightarrow> tryAgain (r2, s2))
         else if fst (Status r1) = RepoNoConfig then Return (r1, s1)
         else tryAgain (r1, s1))"

text \<open>
  \<open>Start\<close> runs its loop until it returns; the list holds the outside decisions of each
  iteration, and the result is \<open>None\<close> when they are used up before \<open>Start\<close> returns.
\<close>

fun Start :: "'w os \<Rightarrow> (sel list \<times> bool) list \<Rightarrow> Repo \<Rightarrow> 'w sys \<Rightarrow> (Repo \<times> 'w sys) option" where
  "Start E [] r s = None"
| "Start E ((evs, sd) # rest) r s =
     (case Start_iteration E evs sd r s of
        Continue (r1, s1) \<Rightarrow> Start E rest r1 s1
      | Return x \<Rightarrow> Some x
      | Waiting x \<Rightarrow> None)"

text \<open>
  \<open>Ready\<close> drives \<open>step\<close> for as long as it reports progress, then returns the recorded
  error. The loop ends because every step that reports progress moves the status forward.
\<close>

function Ready :: "'w os \<Rightarrow> Repo \<Rightarrow> 'w sys \<Rightarrow> error option \<times> Repo \<times> 'w sys" where
  "Ready E r s =
     (let (advanced, r1, s1) = step E r s
      in if advanced then Ready E r1 s1 else (snd (Status r1), r1, s1))"
  by pat_completeness auto
termination
proof (relation "measure (\<lambda>(E, r, s). case status r of RepoNew \<Rightarrow> 2 | RepoCloned \<Rightarrow> 1 | _ \<Rightarrow> 0)")
  show "wf (measure (\<lambda>(E :: 'w os, r, s :: 'w sys). case status r of RepoNew \<Rightarrow> 2 | RepoCloned \<Rightarrow> 1 | _ \<Rightarrow> (0::nat)))"
    by simp
next
  fix E :: "'w os" and r :: Repo and s :: "'w sys" and x xa y xb ya
  assume "x = step E r s" "(xa, y) = x" "(xb, ya) = y" "xa"
  then have st: "step E r s = (True, xb, ya)"
    by simp
  show "((E, xb, ya), E, r, s) \<in> measure (\<lambda>(E, r, s). case status r of RepoNew \<Rightarrow> 2 | RepoCloned \<Rightarrow> 1 | _ \<Rightarrow> 0)"
    using st
    by (cases "status r")
       (auto simp: step_def Let_def setUnready_def setReady_def refreshed_def
             split: prod.splits if_splits)
qed

section \<open>The working checkout\<close>

text \<open>
  The structs \<open>Config\<close> and \<open>Checkout\<close> of \<open>working.go\<close>. Field names that two structs
  share carry the struct's name here (\<open>ConfigSigningKey\<close>, \<open>checkoutDir\<close>,
  \<open>checkoutConfig\<close>).
\<close>

record Config =
  Branch :: string
  Paths :: "string list"
  ReadOnly :: bool
  SyncMarkerName :: string
  NotesRef :: string
  UserName :: string
  UserEmail :: string
  ConfigSigningKey :: string
  SetAuthor :: bool
  SkipMessage :: string

record Checkout =
  checkoutDir :: string
  checkoutConfig :: Config
  upstream :: Remote
  realNotesRef :: string

definition clone :: "'w os \<Rightarrow> string \<Rightarrow> string \<Rightarrow> string \<Rightarrow> 'w sys \<Rightarrow> (string \<times> error option) \<times> 'w sys" where
  "clone E workDir repoURL repoBranch s =
     (let repoPath = workDir;
          args = [''clone''] @ (if repoBranch \<noteq> [] then [''--branch'', repoBranch] else []) @ [repoURL, repoPath];
          (err1, _, s1) = execGitCmd E args (inDir workDir) s
      in case err1 of
           Some e \<Rightarrow> (([], Some (Wrapped e ''git clone'')), s1)
         | None \<Rightarrow> ((repoPath, None), s1))"

definition workingClone :: "'w os \<Rightarrow> Repo \<Rightarrow> string \<Rightarrow> 'w sys \<Rightarrow> (string \<times> error option) \<times> 'w sys" where
  "workingClone E r ref s =
     (case errorIfNotReady r of
        Some e \<Rightarrow> (([], Some e), s)
      | None \<Rightarrow>
          (case tempDir E ''flux-working'' (world s) of
             (Inl e, w) \<Rightarrow> (([], Some e), s\<lparr>world := w\<rparr>)
           | (Inr working, w) \<Rightarrow> clone E working (dir r) ref (s\<lparr>world := w\<rparr>)))"

definition Clone :: "'w os \<Rightarrow> bool \<Rightarrow> Repo \<Rightarrow> Config \<Rightarrow> 'w sys \<Rightarrow> (Checkout option \<times> error option) \<times> 'w sys" where
  "Clone E nameFirst r conf s =
     (let up = origin r
      in case workingClone E r (Branch conf) s of
           ((_, Some e), s1) \<Rightarrow> ((None, Some e), s1)
         | ((repoDir, None), s1) \<Rightarrow>
             (case config E nameFirst repoDir (UserName conf) (UserEmail conf) s1 of
                (Some e, s2) \<Rightarrow> ((None, Some e), s2\<lparr>world := removeAll E repoDir (world s2)\<rparr>)
              | (None, s2) \<Rightarrow>
                  (case getNotesRef E repoDir (NotesRef conf) s2 of
                     ((_, Some e), s3) \<Rightarrow> ((None, Some e), s3\<lparr>world := removeAll E repoDir (world s3)\<rparr>)
                   | ((notesRef, None), s3) \<Rightarrow>
                       (case fetch E repoDir (dir r) [notesRef @ '':'' @ notesRef] s3 of
                          (Some e, s4) \<Rightarrow> ((None, Some e), s4\<lparr>world := removeAll E repoDir (world s4)\<rparr>)
                        | (None, s4) \<Rightarrow>
                            ((Some \<lparr>checkoutDir = repoDir, checkoutConfig = conf,
                                     upstream = up, realNotesRef = notesRef\<rparr>, None), s4)))))"

definition HeadRevision :: "'w os \<Rightarrow> Checkout \<Rightarrow> 'w sys \<Rightarrow> (string \<times> error option) \<times> 'w sys" where
  "HeadRevision E c s = refRevision E (checkoutDir c) ''HEAD'' s"

definition GetNote :: "'n codec \<Rightarrow> 'w os \<Rightarrow> Checkout \<Rightarrow> string \<Rightarrow> 'w sys \<Rightarrow> (bool \<times> error option \<times> 'n option) \<times> 'w sys" where
  "GetNote J E c rv s = getNote J E (checkoutDir c) (realNotesRef c) rv s"

text \<open>
  \<open>CommitAndPush\<close> commits the changes made in the checkout, with any extra data as a
  note, and pushes the commit and the note to the remote repo.
\<close>

definition CommitAndPush :: "'n codec \<Rightarrow> 'w os \<Rightarrow> Checkout \<Rightarrow> CommitAction \<Rightarrow> 'n option \<Rightarrow> 'w sys \<Rightarrow> error option \<times> 'w sys" where
  "CommitAndPush J E c commitAction note s =
     (let conf = checkoutConfig c;
          (changes, s1) = check E (checkoutDir c) (Paths conf) s
      in if \<not> changes then (Some ErrNoChanges, s1)
         else
           (let a1 = commitAction\<lparr>Message := Message commitAction @ SkipMessage conf\<rparr>;
                a2 = (if SigningKey a1 = [] then a1\<lparr>SigningKey := ConfigSigningKey conf\<rparr> else a1);
                (err1, s2) = commit E (checkoutDir c) a2 s1
            in case err1 of
                 Some e \<Rightarrow> (Some e, s2)
               | None \<Rightarrow>
                   (let (err2, s3) =
                          (case note of
                             None \<Rightarrow> (None, s2)
                           | Some n \<Rightarrow>
                               (case HeadRevision E c s2 of
                                  ((_, Some e), t) \<Rightarrow> (Some e, t)
                                | ((rv, None), t) \<Rightarrow> addNote J E (checkoutDir c) rv (NotesRef conf) n t))
                    in case err2 of
                         Some e \<Rightarrow> (Some e, s3)
                       | None \<Rightarrow>
                           (let refs0 = [Branch conf];
                                ((ok, err3), s4) = refExists E (checkoutDir c) (realNotesRef c) s3
                            in if \<not> ok \<and> err3 \<noteq> None then (err3, s4)
                               else
                                 (let refs = (if ok then refs0 @ [realNotesRef c] else refs0);
                                      (err4, s5) = push E (checkoutDir c) (URL (upstream c)) refs s4
                                  in case err4 of
                                       Some e \<Rightarrow> (Some (PushError (URL (upstream c)) e), s5)
                                     | None \<Rightarrow> (None, s5))))))"

section \<open>The sync-marker providers\<close>

record SyncMarkerAction =
  markerSigningKey :: string
  Revision :: string
  markerMessage :: string

record GitTagSyncProvider =
  workingDir :: string
  syncTag :: string
  upstreamURL :: string
  signingKey :: string
  userName :: string
  userEmail :: string

definition GetRevision :: "'w os \<Rightarrow> GitTagSyncProvider \<Rightarrow> 'w sys \<Rightarrow> (string \<times> error option) \<times> 'w sys" where
  "GetRevision E p s = refRevision E (workingDir p) (syncTag p) s"

text \<open>
  \<open>UpdateMarker\<close> of the tag provider. The result of its call of \<open>config\<close> is dropped by
  the source, and so it is here.
\<close>

definition UpdateMarker :: "'w os \<Rightarrow> bool \<Rightarrow> GitTagSyncProvider \<Rightarrow> SyncMarkerAction \<Rightarrow> 'w sys \<Rightarrow> error option \<times> 'w sys" where
  "UpdateMarker E nameFirst p syncMarkerAction s =
     (let wd = workingDir p; tag = syncTag p; up = upstreamURL p;
          a = (if markerSigningKey syncMarkerAction = []
               then syncMarkerAction\<lparr>markerSigningKey := signingKey p\<rparr> else syncMarkerAction);
          (_, s1) = config E nameFirst (workingDir p) (userName p) (userEmail p) s;
          args = [''tag'', ''--force'', ''--annotate'', ''--message'', markerMessage a]
                 @ (if markerSigningKey a \<noteq> [] then [''--local-user='' @ markerSigningKey a] else [])
                 @ [tag, Revision a];
          (err1, _, s2) = execGitCmd E args (inDir wd) s1
      in case err1 of
           Some e \<Rightarrow> (Some (Wrapped e (''moving tag '' @ tag)), s2)
         | None \<Rightarrow>
             (let (err2, _, s3) = execGitCmd E [''push'', ''--force'', up, ''tag'', tag] (inDir wd) s2
              in case err2 of
                   Some e \<Rightarrow> (Some (Wrapped e ''pushing tag to origin''), s3)
                 | None \<Rightarrow> (None, s3)))"

text \<open>
  The resource-backed provider of package \<open>nativestate\<close>. Its store is the package
  variable \<open>nativeShim\<close>; the functions take it and return it. A Go variable declared
  without a value holds the zero value of its type.
\<close>

record NativeShim =
  shimRevision :: string
  shimMessage :: string

definition nativeShim_zero :: NativeShim where
  "nativeShim_zero = \<lparr>shimRevision = [], shimMessage = []\<rparr>"

record NativeSyncProvider =
  revision :: string

definition NewNativeSyncProvider :: NativeSyncProvider where
  "NewNativeSyncProvider = \<lparr>revision = []\<rparr>"

definition Native_GetRevision :: "NativeSyncProvider \<Rightarrow> NativeShim \<Rightarrow> (string \<times> error option) \<times> NativeShim" where
  "Native_GetRevision p shim = ((shimRevision shim, None), shim)"

definition Native_UpdateMarker :: "NativeSyncProvider \<Rightarrow> SyncMarkerAction \<Rightarrow> NativeShim \<Rightarrow> error option \<times> NativeShim" where
  "Native_UpdateMarker p syncMarkerAction shim =
     (None, shim\<lparr>shimRevision := Revision syncMarkerAction, shimMessage := markerMessage syncMarkerAction\<rparr>)"

definition Native_DeleteMarker :: "NativeSyncProvider \<Rightarrow> NativeShim \<Rightarrow> error option \<times> NativeShim" where
  "Native_DeleteMarker p shim = (None, nativeShim_zero)"

text \<open>
  The earlier stand-in for a ConfigMap, in package \<open>git\<close>: the package variable
  \<open>configMapShim\<close> holds one \<open>SyncMarkerAction\<close>.
\<close>

definition configMapShim_zero :: SyncMarkerAction where
  "configMapShim_zero = \<lparr>markerSigningKey = [], Revision = [], markerMessage = []\<rparr>"

definition updateConfigMapState :: "string \<Rightarrow> SyncMarkerAction \<Rightarrow> SyncMarkerAction \<Rightarrow> error option \<times> SyncMarkerAction" where
  "updateConfigMapState configMapName syncMarkerAction shim = (None, syncMarkerAction)"

definition getConfigMapSyncMarkerRevision :: "SyncMarkerAction \<Rightarrow> (string \<times> error option) \<times> SyncMarkerAction" where
  "getConfigMapSyncMarkerRevision shim = ((Revision shim, None), shim)"

section \<open>A fake process layer\<close>

text \<open>
  An instance of the process layer to run the code on: one local repository and its
  upstream, with the behaviour of the \<open>git\<close> command line for the invocations the code
  makes. The local repository has refs (full names to commit ids), the branch \<open>HEAD\<close> is
  on, a flag for uncommitted changes in the work tree and the notes of each notes ref;
  the upstream has refs, can be reached for reading or not, and either accepts pushes or
  rejects them. New commits take their ids from a supply. The directory and the
  environment of an invocation are ignored, and on \<open>fake_os\<close> no deadline ever passes. A
  note is stored as its message is given (the clean-up of blank lines and trailing blanks
  that \<open>git notes add\<close> does is not modelled).
\<close>

record fakeRepo =
  localRefs :: "(string \<times> string) list"
  headBranch :: string
  treeDirty :: bool
  noteStore :: "((string \<times> string) \<times> string) list"
  upstreamRefs :: "(string \<times> string) list"
  upstreamReadable :: bool
  upstreamWritable :: bool
  freshIds :: "string list"

definition okResult :: "string \<Rightarrow> procResult" where
  "okResult out = \<lparr>runErr = None, stdout = out, stderr = [], ctxAfter = CtxLive\<rparr>"

definition failResult :: "string \<Rightarrow> string \<Rightarrow> procResult" where
  "failResult code msg = \<lparr>runErr = Some (''exit status '' @ code), stdout = [], stderr = msg, ctxAfter = CtxLive\<rparr>"

definition setRef :: "string \<Rightarrow> string \<Rightarrow> (string \<times> string) list \<Rightarrow> (string \<times> string) list" where
  "setRef k v rs = (k, v) # filter (\<lambda>kv. fst kv \<noteq> k) rs"

definition dropRef :: "string \<Rightarrow> (string \<times> string) list \<Rightarrow> (string \<times> string) list" where
  "dropRef k rs = filter (\<lambda>kv. fst kv \<noteq> k) rs"

text \<open>
  How \<open>git\<close> reads a revision: \<open>HEAD\<close> is the tip of the current branch; the full id of
  a commit it has stands for that commit; any other name is looked up among the refs, by
  its full name or a short one.
\<close>

definition fullNames :: "string \<Rightarrow> string list" where
  "fullNames x = [x, ''refs/'' @ x, ''refs/tags/'' @ x, ''refs/heads/'' @ x]"

definition resolveRev :: "fakeRepo \<Rightarrow> string \<Rightarrow> string option" where
  "resolveRev w x =
     (if x = ''HEAD'' then map_of (localRefs w) (headBranch w)
      else if x \<in> snd ` set (localRefs w) then Some x
      else (case List.find (\<lambda>n. map_of (localRefs w) n \<noteq> None) (fullNames x) of
              Some n \<Rightarrow> map_of (localRefs w) n
            | None \<Rightarrow> None))"

text \<open>The full name of a notes ref, as \<open>git notes --ref\<close> expands it.\<close>

definition expandNotesRef :: "string \<Rightarrow> string" where
  "expandNotesRef r =
     (if prefix ''refs/notes/'' r then r
      else if prefix ''notes/'' r then ''refs/'' @ r
      else ''refs/notes/'' @ r)"

definition unknownRevision :: "string \<Rightarrow> string" where
  "unknownRevision x =
     ''fatal: ambiguous argument '' @ x @ '': unknown revision or path not in the working tree.'' @ [newline]"

definition unreachable :: string where
  "unreachable = ''fatal: Could not read from remote repository.'' @ [newline]"

definition fake_tag :: "string list \<Rightarrow> fakeRepo \<Rightarrow> procResult \<times> fakeRepo" where
  "fake_tag rest w =
     (let (name, target) =
            (if 6 \<le> length rest then (rest ! (length rest - 2), last rest) else (last rest, ''HEAD''))
      in case resolveRev w target of
           None \<Rightarrow> (failResult ''128'' (''fatal: Failed to resolve '' @ target @ '' as a valid ref.'' @ [newline]), w)
         | Some c \<Rightarrow> (okResult [], w\<lparr>localRefs := setRef (''refs/tags/'' @ name) c (localRefs w)\<rparr>))"

definition pushName :: "fakeRepo \<Rightarrow> string \<Rightarrow> string" where
  "pushName w x = (if prefix ''refs/'' x then x else ''refs/heads/'' @ x)"

fun fake_push_refs :: "string list \<Rightarrow> fakeRepo \<Rightarrow> (string \<times> string) list \<Rightarrow> (string \<times> string) list option" where
  "fake_push_refs [] w up = Some up"
| "fake_push_refs (x # xs) w up =
     (case map_of (localRefs w) (pushName w x) of
        None \<Rightarrow> None
      | Some c \<Rightarrow> fake_push_refs xs w (setRef (pushName w x) c up))"

definition fake_push :: "string list \<Rightarrow> fakeRepo \<Rightarrow> procResult \<times> fakeRepo" where
  "fake_push rest w =
     (if \<not> upstreamWritable w then (failResult ''128'' unreachable, w)
      else if 4 \<le> length rest \<and> rest ! 0 = ''--force'' \<and> rest ! 2 = ''tag''
      then (case map_of (localRefs w) (''refs/tags/'' @ rest ! 3) of
              None \<Rightarrow> (failResult ''1'' (''error: src refspec '' @ rest ! 3 @ '' does not match any'' @ [newline]), w)
            | Some c \<Rightarrow> (okResult [], w\<lparr>upstreamRefs := setRef (''refs/tags/'' @ rest ! 3) c (upstreamRefs w)\<rparr>))
      else if 4 \<le> length rest \<and> rest ! 0 = ''--delete'' \<and> rest ! 2 = ''tag''
      then (okResult [], w\<lparr>upstreamRefs := dropRef (''refs/tags/'' @ rest ! 3) (upstreamRefs w)\<rparr>)
      else (case fake_push_refs (tl rest) w (upstreamRefs w) of
              None \<Rightarrow> (failResult ''1'' (''error: src refspec does not match any'' @ [newline]), w)
            | Some up \<Rightarrow> (okResult [], w\<lparr>upstreamRefs := up\<rparr>)))"

definition fake_rev_list :: "string list \<Rightarrow> fakeRepo \<Rightarrow> procResult \<times> fakeRepo" where
  "fake_rev_list rest w =
     (case resolveRev w (last rest) of
        None \<Rightarrow> (failResult ''128'' (unknownRevision (last rest)), w)
      | Some c \<Rightarrow> (okResult (c @ [newline]), w))"

definition fake_commit :: "fakeRepo \<Rightarrow> procResult \<times> fakeRepo" where
  "fake_commit w =
     (if \<not> treeDirty w then (failResult ''1'' [], w)
      else (case freshIds w of
              [] \<Rightarrow> (failResult ''128'' (''fatal: unable to write new commit'' @ [newline]), w)
            | c # cs \<Rightarrow>
                (okResult [], w\<lparr>localRefs := setRef (headBranch w) c (localRefs w),
                                treeDirty := False, freshIds := cs\<rparr>)))"

definition fake_notes :: "string list \<Rightarrow> fakeRepo \<Rightarrow> procResult \<times> fakeRepo" where
  "fake_notes rest w =
     (if length rest = 3 \<and> rest ! 2 = ''get-ref'' then (okResult (expandNotesRef (rest ! 1) @ [newline]), w)
      else if length rest = 6 \<and> rest ! 2 = ''add''
      then (case resolveRev w (rest ! 5) of
              None \<Rightarrow> (failResult ''128'' (''fatal: failed to resolve '' @ rest ! 5 @ '' as a valid ref.'' @ [newline]), w)
            | Some c \<Rightarrow>
                (case (map_of (noteStore w) (expandNotesRef (rest ! 1), c), freshIds w) of
                   (None, i # is) \<Rightarrow>
                     (okResult [], w\<lparr>noteStore := ((expandNotesRef (rest ! 1), c), rest ! 4) # noteStore w,
                                     localRefs := setRef (expandNotesRef (rest ! 1)) i (localRefs w),
                                     freshIds := is\<rparr>)
                 | _ \<Rightarrow> (failResult ''1'' (''error: Cannot add notes. Found existing notes for object '' @ c @ [newline]), w)))
      else if length rest = 4 \<and> rest ! 2 = ''show''
      then (case resolveRev w (rest ! 3) of
              None \<Rightarrow> (failResult ''128'' (''fatal: failed to resolve '' @ rest ! 3 @ '' as a valid ref.'' @ [newline]), w)
            | Some c \<Rightarrow>
                (case map_of (noteStore w) (expandNotesRef (rest ! 1), c) of
                   None \<Rightarrow> (failResult ''1'' (''error: no note found for object '' @ c @ ''.'' @ [newline]), w)
                 | Some m \<Rightarrow> (okResult (m @ [newline]), w)))
      else (failResult ''1'' [], w))"

definition fake_git :: "string \<Rightarrow> string list \<Rightarrow> string list \<Rightarrow> fakeRepo \<Rightarrow> procResult \<times> fakeRepo" where
  "fake_git d envs args w =
     (case args of
        [] \<Rightarrow> (failResult ''1'' [], w)
      | cmd # rest \<Rightarrow>
          (if cmd = ''tag'' then fake_tag rest w
           else if cmd = ''push'' then fake_push rest w
           else if cmd = ''rev-list'' then fake_rev_list rest w
           else if cmd = ''notes'' then fake_notes rest w
           else if cmd = ''commit'' then fake_commit w
           else if cmd = ''diff'' then (if treeDirty w then (failResult ''1'' [], w) else (okResult [], w))
           else if cmd = ''fetch'' \<or> cmd = ''clone''
           then (if upstreamReadable w then (okResult [], w) else (failResult ''128'' unreachable, w))
           else if cmd = ''config'' then (okResult [], w)
           else (failResult ''1'' [], w)))"

definition fake_os :: "fakeRepo os" where
  "fake_os = \<lparr>runGit = fake_git, lookupEnv = (\<lambda>k. None), removeAll = (\<lambda>d w. w),
              tempDir = (\<lambda>p w. (Inr (''/tmp/'' @ p), w))\<rparr>"

text \<open>A repository with one commit on \<open>master\<close>, the sync tag at that commit, and no trace yet.\<close>

definition repo0 :: fakeRepo where
  "repo0 = \<lparr>localRefs = [(''refs/heads/master'', ''c1''), (''refs/tags/flux-sync'', ''c1'')],
            headBranch = ''refs/heads/master'', treeDirty = False, noteStore = [],
            upstreamRefs = [(''refs/heads/master'', ''c1''), (''refs/tags/flux-sync'', ''c1'')],
            upstreamReadable = True, upstreamWritable = True, freshIds = [''c2'', ''c3'', ''c4'']\<rparr>"

definition sys0 :: "fakeRepo \<Rightarrow> fakeRepo sys" where
  "sys0 w = \<lparr>world = w, traced = []\<rparr>"



section \<open>Sequences of transitions\<close>

text \<open>
  What moves the status of a mirror: a call of \<open>step\<close> (as \<open>Ready\<close> makes them), or one
  iteration of the loop of \<open>Start\<close>, which calls \<open>step\<close> and, from the refresh loop, demotes
  the mirror when a refresh fails. \<open>visited\<close> is the list of the states a mirror goes
  through along a sequence of them.
\<close>

datatype transition = DoStep | DoStartIteration "sel list" bool

definition apply_transition :: "'w os \<Rightarrow> transition \<Rightarrow> Repo \<Rightarrow> 'w sys \<Rightarrow> Repo \<times> 'w sys" where
  "apply_transition E t r s =
     (case t of
        DoStep \<Rightarrow> snd (step E r s)
      | DoStartIteration evs sd \<Rightarrow>
          (case Start_iteration E evs sd r s of Continue x \<Rightarrow> x | Return x \<Rightarrow> x | Waiting x \<Rightarrow> x))"

fun visited :: "'w os \<Rightarrow> transition list \<Rightarrow> Repo \<Rightarrow> 'w sys \<Rightarrow> Repo list" where
  "visited E [] r s = [r]"
| "visited E (t # ts) r s = r # visited E ts (fst (apply_transition E t r s)) (snd (apply_transition E t r s))"

text \<open>The statuses in the order of their declaration, which is the expected order of progress.\<close>

definition level :: "GitRepoStatus \<Rightarrow> nat" where
  "level st = (case st of RepoNoConfig \<Rightarrow> 0 | RepoNew \<Rightarrow> 1 | RepoCloned \<Rightarrow> 2 | RepoReady \<Rightarrow> 3)"

text \<open>
  A move of the status that the claimed invariant allows: \<open>RepoNoConfig\<close> is neither left
  nor entered, and otherwise the status does not decrease, or it falls back to \<open>RepoNew\<close>.
\<close>

definition legal_move :: "GitRepoStatus \<Rightarrow> GitRepoStatus \<Rightarrow> bool" where
  "legal_move a b = (((a = RepoNoConfig) = (b = RepoNoConfig)) \<and> (level a \<le> level b \<or> b = RepoNew))"

section \<open>Concrete inputs\<close>

definition origin_none :: Remote where
  "origin_none = \<lparr>URL = [], StateMode = GitTagStateMode\<rparr>"

definition origin_native :: Remote where
  "origin_native = \<lparr>URL = ''git@example.com:flux/config.git'', StateMode = NativeStateMode\<rparr>"

definition mirror_unconfigured :: Repo where
  "mirror_unconfigured =
     \<lparr>origin = origin_none, interval = defaultInterval, timeout = 30, readonly = True,
      status = RepoNoConfig, err = Some ErrNotCloned, dir = ''/tmp/flux-gitclone'',
      stateMode = GitTagStateMode, notify = makeChan 1, C = makeChan 1\<rparr>"

definition mirror_new :: Repo where
  "mirror_new =
     \<lparr>origin = origin_native, interval = defaultInterval, timeout = defaultTimeout, readonly = False,
      status = RepoNew, err = Some ErrNotCloned, dir = ''/tmp/flux-gitclone'',
      stateMode = NativeStateMode, notify = makeChan 1, C = makeChan 1\<rparr>"

definition mirror_cloned :: Repo where
  "mirror_cloned = mirror_new\<lparr>status := RepoCloned, err := Some ErrClonedOnly\<rparr>"

definition mirror_ready :: Repo where
  "mirror_ready = mirror_new\<lparr>status := RepoReady, err := None\<rparr>"

definition repo_offline :: fakeRepo where
  "repo_offline = repo0\<lparr>upstreamReadable := False, upstreamWritable := False\<rparr>"

definition repo_dirty :: fakeRepo where
  "repo_dirty = repo0\<lparr>treeDirty := True\<rparr>"

definition config0 :: Config where
  "config0 = \<lparr>Branch = ''master'', Paths = [''deploy''], ReadOnly = False, SyncMarkerName = ''flux-sync'',
              NotesRef = ''flux'', UserName = ''Weave Flux'', UserEmail = ''support@weave.works'',
              ConfigSigningKey = [], SetAuthor = False, SkipMessage = '' [ci skip]''\<rparr>"

definition checkout0 :: Checkout where
  "checkout0 = \<lparr>checkoutDir = ''/tmp/flux-working'', checkoutConfig = config0,
                upstream = origin_native, realNotesRef = ''refs/notes/flux''\<rparr>"

definition action0 :: CommitAction where
  "action0 = \<lparr>Author = [], Message = ''update image'', SigningKey = []\<rparr>"

text \<open>
  A codec for notes that are plain texts without quotes: the text between double quotes,
  as \<open>encoding/json\<close> renders such a string.
\<close>

definition textCodec :: "string codec" where
  "textCodec =
     \<lparr>Marshal = (\<lambda>n. Inr ([CHR 0x22] @ n @ [CHR 0x22])),
      Decode = (\<lambda>t. let u = TrimSpace t
                     in if 2 \<le> length u \<and> hd u = CHR 0x22 \<and> last u = CHR 0x22
                        then Inr (butlast (tl u)) else Inl (DecodeError ''invalid character''))\<rparr>"

definition provider0 :: GitTagSyncProvider where
  "provider0 = \<lparr>workingDir = ''/tmp/flux-gitclone'', syncTag = ''flux-sync'',
                upstreamURL = ''git@example.com:flux/config.git'', signingKey = [],
                userName = ''Weave Flux'', userEmail = ''support@weave.works''\<rparr>"

definition marker0 :: SyncMarkerAction where
  "marker0 = \<lparr>markerSigningKey = [], Revision = ''HEAD'', markerMessage = ''Sync pointer''\<rparr>"

text \<open>The upstream rejects pushes, and the local branch is one commit ahead of the sync tag.\<close>

definition repo_ahead :: fakeRepo where
  "repo_ahead = repo0\<lparr>localRefs := [(''refs/heads/master'', ''c2''), (''refs/tags/flux-sync'', ''c1'')],
                      upstreamWritable := False, freshIds := [''c3'', ''c4'']\<rparr>"

text \<open>That repository once the local sync tag has been moved to the tip of the branch.\<close>

definition repo_moved :: fakeRepo where
  "repo_moved = repo_ahead\<lparr>localRefs := [(''refs/tags/flux-sync'', ''c2''), (''refs/heads/master'', ''c2'')]\<rparr>"

section \<open>Construction, cleaning and notification of a mirror\<close>

lemma apply_options_status:
  "status (foldl (\<lambda>r opt. apply_option opt r) r opts) = status r"
proof (induction opts arbitrary: r)
  case Nil
  show ?case by simp
next
  case (Cons opt opts)
  then show ?case by (cases opt) simp_all
qed

lemma apply_options_notify:
  "notify (foldl (\<lambda>r opt. apply_option opt r) r opts) = notify r"
proof (induction opts arbitrary: r)
  case Nil
  show ?case by simp
next
  case (Cons opt opts)
  then show ?case by (cases opt) simp_all
qed

lemma NewRepo_status:
  assumes "NewRepo E orig opts s = (Some r, s1)"
  shows "status r = (if URL orig = [] then RepoNoConfig else RepoNew)"
  using assms
  by (auto simp: NewRepo_def Let_def apply_options_status split: prod.splits option.splits)

lemma NewRepo_notify:
  assumes "NewRepo E orig opts s = (Some r, s1)"
  shows "notify r = makeChan 1"
  using assms
  by (auto simp: NewRepo_def Let_def apply_options_notify split: prod.splits option.splits)

text \<open>
  C10. For every \<open>Repo\<close>, whatever its current status (\<open>RepoNoConfig\<close> and \<open>RepoReady\<close>
  included), \<open>Clean\<close> sets the status to \<open>RepoNew\<close> and the directory to the empty string,
  and leaves the recorded error as it was.
\<close>

theorem Clean_resets:
  "status (fst (Clean E r s)) = RepoNew \<and> dir (fst (Clean E r s)) = [] \<and> err (fst (Clean E r s)) = err r"
  by (simp add: Clean_def Let_def)

text \<open>
  C8. A mirror constructed with an empty remote URL has the status \<open>RepoNoConfig\<close>,
  whatever options are supplied, and every call of \<open>step\<close> on it reports no progress (and
  leaves the mirror and the outside world as they are, so the next call finds the same).
\<close>

theorem NewRepo_without_url:
  assumes "URL orig = []" and "NewRepo E orig opts s = (Some r, s1)"
  shows "status r = RepoNoConfig \<and> (\<forall>t. step E' r t = (False, r, t))"
proof -
  have st: "status r = RepoNoConfig"
    using NewRepo_status [OF assms(2)] assms(1) by simp
  then show ?thesis
    by (simp add: step_def Let_def)
qed

theorem NewRepo_without_url_witness:
  "URL origin_none = [] \<and>
   NewRepo fake_os origin_none [RepoIsReadOnly True, Timeout 30] (sys0 repo0) = (Some mirror_unconfigured, sys0 repo0) \<and>
   status mirror_unconfigured = RepoNoConfig \<and>
   (\<forall>t. step fake_os mirror_unconfigured t = (False, mirror_unconfigured, t))"
proof -
  have u: "URL origin_none = []"
    by (simp add: origin_none_def)
  have n: "NewRepo fake_os origin_none [RepoIsReadOnly True, Timeout 30] (sys0 repo0) = (Some mirror_unconfigured, sys0 repo0)"
    by code_simp
  from NewRepo_without_url [OF u n, where E' = fake_os] u n show ?thesis
    by simp
qed

lemma Notify_full:
  "queued (notify r) = capacity (notify r) \<Longrightarrow> Notify r = r"
  by (simp add: Notify_def trySend_def)

text \<open>
  C7. On a mirror as \<open>NewRepo\<close> builds it, no notification is pending; after one call of
  \<open>Notify\<close> exactly one is; and any number of further calls, made before the refresh loop
  takes the notification, leave the mirror exactly as the first call left it: at most one
  refresh request is pending, and a call made while one is pending queues no second one.
  \<open>Notify\<close> is a \<open>select\<close> with a \<open>default\<close> branch, which cannot block; it is a total
  function here.
\<close>

theorem Notify_coalesces:
  assumes "NewRepo E orig opts s = (Some r, s1)"
  shows "queued (notify r) = 0 \<and> queued (notify (Notify r)) = 1 \<and> (Notify ^^ Suc n) r = Notify r"
proof -
  have ch: "notify r = makeChan 1"
    by (rule NewRepo_notify [OF assms])
  have one: "queued (notify (Notify r)) = 1 \<and> capacity (notify (Notify r)) = 1"
    by (simp add: ch Notify_def trySend_def makeChan_def)
  have "(Notify ^^ Suc n) r = Notify r"
  proof (induction n)
    case 0
    show ?case by simp
  next
    case (Suc n)
    have "(Notify ^^ Suc (Suc n)) r = Notify ((Notify ^^ Suc n) r)"
      by simp
    also have "\<dots> = Notify (Notify r)"
      by (simp only: Suc.IH)
    also have "\<dots> = Notify r"
      using one by (intro Notify_full) simp
    finally show ?case .
  qed
  with ch one show ?thesis
    by (simp add: makeChan_def)
qed

theorem Notify_coalesces_witness:
  "NewRepo fake_os origin_native [] (sys0 repo0) = (Some mirror_new, sys0 repo0) \<and>
   queued (notify mirror_new) = 0 \<and>
   queued (notify (Notify mirror_new)) = 1 \<and>
   (Notify ^^ Suc 4) mirror_new = Notify mirror_new"
proof -
  have n: "NewRepo fake_os origin_native [] (sys0 repo0) = (Some mirror_new, sys0 repo0)"
    by code_simp
  from Notify_coalesces [OF n, of 4] n show ?thesis
    by simp
qed

section \<open>What each primitive runs\<close>

lemma execGitCmd_traced:
  "traced (snd (snd (execGitCmd E args cfg s))) = traced s @ [args]"
  by (simp add: execGitCmd_def trace_def Let_def split: prod.splits)


lemma execGitCmd_world:
  "world (snd (snd (execGitCmd E args cfg s))) = snd (runGit E (cmdDir cfg) (env_of E @ cmdEnv cfg) args (world s))"
  by (simp add: execGitCmd_def trace_def Let_def split: prod.splits)












lemma checkPush_traced:
  "\<exists>rest. traced (snd (checkPush E d u s)) = traced s @ [''tag'', ''--force'', checkPushTag] # rest"
  by (simp add: checkPush_def Let_def case_prod_beta execGitCmd_traced split: option.splits)

section \<open>The transition step\<close>

text \<open>
  C3, as amended. For a mirror in the status \<open>RepoCloned\<close>, \<open>step\<close> runs the write-access
  probe (it tags \<open>flux-write-check\<close>, pushes the tag and deletes it upstream) if and only if
  the mirror is not read-only or its state mode is the git tag; the marker mode alone does
  not decide it. Without the probe \<open>step\<close> runs no command at all. When the probe is not
  run, or succeeds, \<open>step\<close> reports progress and the mirror is \<open>RepoReady\<close> with no error;
  when the probe fails, \<open>step\<close> reports no progress and the mirror stays \<open>RepoCloned\<close> with
  the probe's error recorded.
\<close>

theorem step_Cloned_probe:
  fixes E :: "'w os" and r :: Repo and s :: "'w sys"
  defines "probe \<equiv> \<not> readonly r \<or> stateMode r = GitTagStateMode"
    and "outcome \<equiv> checkPush E (dir r) (URL (origin r)) s"
    and "r' \<equiv> fst (snd (step E r s))"
    and "s' \<equiv> snd (snd (step E r s))"
  assumes "status r = RepoCloned"
  shows "((\<exists>rest. traced s' = traced s @ [''tag'', ''--force'', checkPushTag] # rest) = probe)
       \<and> s' = (if probe then snd outcome else s)
       \<and> (if \<not> probe \<or> fst outcome = None
          then fst (step E r s) \<and> status r' = RepoReady \<and> err r' = None
          else \<not> fst (step E r s) \<and> status r' = RepoCloned \<and> err r' = fst outcome)"
proof -
  have s': "s' = (if probe then snd outcome else s)"
    using assms(5)
    by (auto simp: s'_def probe_def outcome_def step_def Let_def IsReadOnly_def split: prod.splits)
  have tr: "(\<exists>rest. traced s' = traced s @ [''tag'', ''--force'', checkPushTag] # rest) = probe"
  proof (cases probe)
    case True
    then show ?thesis
      using s' checkPush_traced [of E "dir r" "URL (origin r)" s] by (simp add: outcome_def)
  next
    case False
    then show ?thesis
      using s' by simp
  qed
  have res: "if \<not> probe \<or> fst outcome = None
          then fst (step E r s) \<and> status r' = RepoReady \<and> err r' = None
          else \<not> fst (step E r s) \<and> status r' = RepoCloned \<and> err r' = fst outcome"
    using assms(5)
    by (auto simp: r'_def probe_def outcome_def step_def Let_def IsReadOnly_def
          setReady_def setUnready_def refreshed_def split: prod.splits)
  from tr s' res show ?thesis
    by simp
qed

theorem step_Cloned_probe_witness:
  "status mirror_cloned = RepoCloned \<and>
   fst (step fake_os mirror_cloned (sys0 repo0)) \<and>
   status (fst (snd (step fake_os mirror_cloned (sys0 repo0)))) = RepoReady \<and>
   err (fst (snd (step fake_os mirror_cloned (sys0 repo0)))) = None"
proof -
  have h: "status mirror_cloned = RepoCloned"
    by (simp add: mirror_cloned_def)
  have e: "fst (checkPush fake_os (dir mirror_cloned) (URL (origin mirror_cloned)) (sys0 repo0)) = None"
    by code_simp
  from step_Cloned_probe [OF h, of fake_os "sys0 repo0"] e h show ?thesis
    by simp
qed

text \<open>
  C3, as stated, fails: a mirror that is not read-only and whose marker is kept outside the
  repository (state mode \<open>Native\<close>, which needs no write access) still runs the probe.
\<close>

theorem probe_in_native_mode:
  "status mirror_cloned = RepoCloned \<and>
   readonly mirror_cloned = False \<and>
   stateMode mirror_cloned = NativeStateMode \<and>
   NativeStateMode \<noteq> GitTagStateMode \<and>
   traced (snd (snd (step fake_os mirror_cloned (sys0 repo0)))) =
     [[''tag'', ''--force'', ''flux-write-check''],
      [''push'', ''--force'', ''git@example.com:flux/config.git'', ''tag'', ''flux-write-check''],
      [''push'', ''--delete'', ''git@example.com:flux/config.git'', ''tag'', ''flux-write-check'']]"
  by code_simp

lemma step_status:
  "(status r = RepoNoConfig \<longrightarrow> status (fst (snd (step E r s))) = RepoNoConfig)
   \<and> (status r = RepoNew \<longrightarrow> status (fst (snd (step E r s))) \<in> {RepoNew, RepoCloned})
   \<and> (status r = RepoCloned \<longrightarrow> status (fst (snd (step E r s))) \<in> {RepoCloned, RepoReady})
   \<and> (status r = RepoReady \<longrightarrow> status (fst (snd (step E r s))) = RepoReady)"
  by (cases "status r")
     (auto simp: step_def Let_def setUnready_def setReady_def refreshed_def split: prod.splits)

lemma step_stuck_Ready:
  "step E r s = (False, r1, s1) \<Longrightarrow> status r1 = RepoReady \<Longrightarrow> status r = RepoReady"
  by (cases "status r")
     (auto simp: step_def Let_def setUnready_def setReady_def refreshed_def split: prod.splits if_splits)

lemma Refresh_status:
  "status (fst (snd (Refresh E r s))) = status r"
  by (auto simp: Refresh_def refreshed_def split: option.splits prod.splits)

lemma refreshLoop_status:
  "status (fst (snd (refreshLoop E evs r s))) = status r"
proof (induction E evs r s rule: refreshLoop.induct)
  case (5 E evs r s)
  show ?case
  proof (cases "tryRecv (notify r)")
    case None
    with "5.IH"(1) show ?thesis by simp
  next
    case (Some ch)
    obtain e r1 s1 where rf: "Refresh E (r\<lparr>notify := ch\<rparr>) s = (e, r1, s1)"
      by (metis prod_cases3)
    have st: "status r1 = status r"
      using Refresh_status [of E "r\<lparr>notify := ch\<rparr>" s] rf by simp
    show ?thesis
    proof (cases e)
      case None
      with "5.IH"(2) [OF Some] rf st Some show ?thesis by simp
    next
      case (Some x)
      with rf st \<open>tryRecv (notify r) = Some ch\<close> show ?thesis by simp
    qed
  qed
qed (simp_all add: Notify_def)

lemma step_move:
  "legal_move (status r) (status (fst (snd (step E r s)))) \<and> level (status r) \<le> level (status (fst (snd (step E r s))))"
  using step_status [of r E s]
  by (cases "status r") (auto simp: legal_move_def level_def)

lemma apply_transition_move:
  fixes E :: "'w os" and t :: transition and r :: Repo and s :: "'w sys"
  defines "b \<equiv> fst (apply_transition E t r s)"
  shows "legal_move (status r) (status b) \<and> (level (status b) < level (status r) \<longrightarrow> status b = RepoNew \<and> err b \<noteq> None)"
proof (cases t)
  case DoStep
  then show ?thesis
    using step_move [of r E s] by (simp add: b_def apply_transition_def)
next
  case (DoStartIteration evs sd)
  obtain adv r1 s1 where st: "step E r s = (adv, r1, s1)"
    by (metis prod_cases3)
  have m1: "legal_move (status r) (status r1) \<and> level (status r) \<le> level (status r1)"
    using step_move [of r E s] st by simp
  show ?thesis
  proof (cases "\<not> adv \<and> status r1 = RepoReady")
    case False
    then show ?thesis
      using m1 st DoStartIteration
      by (auto simp: b_def apply_transition_def Start_iteration_def Status_def Let_def)
  next
    case True
    then have rr: "status r = RepoReady"
      using step_stuck_Ready [of E r s r1 s1] st by simp
    obtain res r2 s2 where rl: "refreshLoop E evs r1 s1 = (res, r2, s2)"
      by (metis prod_cases3)
    have s2: "status r2 = RepoReady"
      using refreshLoop_status [of E evs r1 s1] rl True by simp
    show ?thesis
      using True st rl s2 rr DoStartIteration
      by (auto simp: b_def apply_transition_def Start_iteration_def Status_def Let_def
            setUnready_def legal_move_def level_def split: option.splits)
  qed
qed

lemma visited_first: "visited E ts r s ! 0 = r"
  by (cases ts) simp_all

text \<open>
  C4. Along every sequence of transitions of a mirror (calls of \<open>step\<close> and iterations of
  the loop of \<open>Start\<close>, the demotion after a failed refresh included), each state \<open>a\<close> and
  its successor \<open>b\<close> satisfy: the status is \<open>RepoNoConfig\<close> in both or in neither, so
  \<open>RepoNoConfig\<close> is assumed at construction only; the status does not decrease in the order
  \<open>RepoNew\<close>, \<open>RepoCloned\<close>, \<open>RepoReady\<close>, or else it falls back to \<open>RepoNew\<close> and to no
  state in between, and then an error is recorded.
\<close>

theorem status_moves:
  fixes E :: "'w os" and ts :: "transition list" and r :: Repo and s :: "'w sys" and i :: nat
  defines "a \<equiv> visited E ts r s ! i" and "b \<equiv> visited E ts r s ! Suc i"
  assumes "Suc i < length (visited E ts r s)"
  shows "legal_move (status a) (status b) \<and> (level (status b) < level (status a) \<longrightarrow> status b = RepoNew \<and> err b \<noteq> None)"
  using assms(3) unfolding a_def b_def
proof (induction ts arbitrary: r s i)
  case Nil
  then show ?case by simp
next
  case (Cons t ts)
  show ?case
  proof (cases i)
    case 0
    then show ?thesis
      using apply_transition_move [where E = E and t = t and r = r and s = s] by (simp add: visited_first)
  next
    case (Suc j)
    then show ?thesis
      using Cons.IH [of j "fst (apply_transition E t r s)" "snd (apply_transition E t r s)"] Cons.prems
      by simp
  qed
qed

theorem status_moves_witness:
  "Suc 0 < length (visited fake_os [DoStartIteration [CallerNotify, SelNotify] False] mirror_ready (sys0 repo_offline)) \<and>
   status (visited fake_os [DoStartIteration [CallerNotify, SelNotify] False] mirror_ready (sys0 repo_offline) ! 0) = RepoReady \<and>
   status (visited fake_os [DoStartIteration [CallerNotify, SelNotify] False] mirror_ready (sys0 repo_offline) ! Suc 0) = RepoNew \<and>
   err (visited fake_os [DoStartIteration [CallerNotify, SelNotify] False] mirror_ready (sys0 repo_offline) ! Suc 0) \<noteq> None"
proof -
  let ?v = "visited fake_os [DoStartIteration [CallerNotify, SelNotify] False] mirror_ready (sys0 repo_offline)"
  have l: "Suc 0 < length ?v"
    by simp
  have a: "status (?v ! 0) = RepoReady"
    by code_simp
  have b: "status (?v ! Suc 0) = RepoNew"
    by code_simp
  from status_moves [OF l] a b l show ?thesis
    by (simp add: level_def)
qed

section \<open>The commit-and-push transaction\<close>



text \<open>
  On the fake layer, \<open>git rev-list\<close> on a ref ends without error exactly when the ref
  resolves in the local repository.
\<close>

lemma rev_list_finds_local_ref:
  "(runErr (fst (runGit fake_os d envs [''rev-list'', r] w)) = None
    \<and> ctxAfter (fst (runGit fake_os d envs [''rev-list'', r] w)) = CtxLive)
   = (resolveRev w r \<noteq> None)"
  by (simp add: fake_os_def fake_git_def fake_rev_list_def okResult_def failResult_def split: option.splits)





section \<open>The sync marker\<close>

text \<open>
  C1, as amended. When \<open>UpdateMarker\<close> of the tag provider fails at the push step (the
  forced move of the local tag has returned no error, and the push returns the error
  \<open>e\<close>), the failure is reported to the caller: the call returns \<open>e\<close> wrapped with the text
  \<open>pushing tag to origin\<close>. After setting the git configuration the call has run the move
  of the local tag and the push and nothing else, and the outside world is as the push
  left what the move of the tag made of it: the local tag is not put back. \<open>GetRevision\<close>
  reads that local tag, so it is not bound to return the revision recorded before.
\<close>

theorem UpdateMarker_push_failure:
  fixes E :: "'w os" and p :: GitTagSyncProvider and a :: SyncMarkerAction and s :: "'w sys"
    and nameFirst :: bool
  defines "key \<equiv> (if markerSigningKey a = [] then signingKey p else markerSigningKey a)"
  defines "tagArgs \<equiv> [''tag'', ''--force'', ''--annotate'', ''--message'', markerMessage a]
                      @ (if key \<noteq> [] then [''--local-user='' @ key] else []) @ [syncTag p, Revision a]"
    and "pushArgs \<equiv> [''push'', ''--force'', upstreamURL p, ''tag'', syncTag p]"
    and "s1 \<equiv> snd (config E nameFirst (workingDir p) (userName p) (userEmail p) s)"
  assumes tag: "execGitCmd E tagArgs (inDir (workingDir p)) s1 = (None, out1, s2)"
    and push: "execGitCmd E pushArgs (inDir (workingDir p)) s2 = (Some e, out2, s3)"
  shows "UpdateMarker E nameFirst p a s = (Some (Wrapped e ''pushing tag to origin''), s3)
       \<and> traced s3 = traced s1 @ [tagArgs, pushArgs]
       \<and> world s2 = snd (runGit E (workingDir p) (env_of E) tagArgs (world s1))
       \<and> world s3 = snd (runGit E (workingDir p) (env_of E) pushArgs (world s2))"
proof -
  have t1: "traced s2 = traced s1 @ [tagArgs]"
    using execGitCmd_traced [of E tagArgs "inDir (workingDir p)" s1] tag by simp
  have t2: "traced s3 = traced s2 @ [pushArgs]"
    using execGitCmd_traced [of E pushArgs "inDir (workingDir p)" s2] push by simp
  have w1: "world s2 = snd (runGit E (workingDir p) (env_of E) tagArgs (world s1))"
    using execGitCmd_world [of E tagArgs "inDir (workingDir p)" s1] tag by (simp add: inDir_def)
  have w2: "world s3 = snd (runGit E (workingDir p) (env_of E) pushArgs (world s2))"
    using execGitCmd_world [of E pushArgs "inDir (workingDir p)" s2] push by (simp add: inDir_def)
  have u: "UpdateMarker E nameFirst p a s = (Some (Wrapped e ''pushing tag to origin''), s3)"
    using tag push unfolding s1_def tagArgs_def pushArgs_def key_def
    by (cases "markerSigningKey a = []"; cases "signingKey p = []")
       (simp_all add: UpdateMarker_def Let_def case_prod_beta)
  from u t1 t2 w1 w2 show ?thesis
    by simp
qed

theorem UpdateMarker_push_failure_witness:
  "execGitCmd fake_os [''tag'', ''--force'', ''--annotate'', ''--message'', ''Sync pointer'', ''flux-sync'', ''HEAD'']
     (inDir ''/tmp/flux-gitclone'')
     (snd (config fake_os True ''/tmp/flux-gitclone'' ''Weave Flux'' ''support@weave.works'' (sys0 repo_ahead)))
     = (None, [],
        \<lparr>world = repo_moved,
         traced = [[''config'', ''user.name'', ''Weave Flux''], [''config'', ''user.email'', ''support@weave.works''],
                   [''tag'', ''--force'', ''--annotate'', ''--message'', ''Sync pointer'', ''flux-sync'', ''HEAD'']]\<rparr>) \<and>
   execGitCmd fake_os [''push'', ''--force'', ''git@example.com:flux/config.git'', ''tag'', ''flux-sync'']
     (inDir ''/tmp/flux-gitclone'')
     \<lparr>world = repo_moved,
      traced = [[''config'', ''user.name'', ''Weave Flux''], [''config'', ''user.email'', ''support@weave.works''],
                [''tag'', ''--force'', ''--annotate'', ''--message'', ''Sync pointer'', ''flux-sync'', ''HEAD'']]\<rparr>
     = (Some (ErrorString ''fatal: Could not read from remote repository.''), [],
        \<lparr>world = repo_moved,
         traced = [[''config'', ''user.name'', ''Weave Flux''], [''config'', ''user.email'', ''support@weave.works''],
                   [''tag'', ''--force'', ''--annotate'', ''--message'', ''Sync pointer'', ''flux-sync'', ''HEAD''],
                   [''push'', ''--force'', ''git@example.com:flux/config.git'', ''tag'', ''flux-sync'']]\<rparr>) \<and>
   UpdateMarker fake_os True provider0 marker0 (sys0 repo_ahead)
     = (Some (Wrapped (ErrorString ''fatal: Could not read from remote repository.'') ''pushing tag to origin''),
        \<lparr>world = repo_moved,
         traced = [[''config'', ''user.name'', ''Weave Flux''], [''config'', ''user.email'', ''support@weave.works''],
                   [''tag'', ''--force'', ''--annotate'', ''--message'', ''Sync pointer'', ''flux-sync'', ''HEAD''],
                   [''push'', ''--force'', ''git@example.com:flux/config.git'', ''tag'', ''flux-sync'']]\<rparr>)"
proof -
  let ?t2 = "\<lparr>world = repo_moved,
      traced = [[''config'', ''user.name'', ''Weave Flux''], [''config'', ''user.email'', ''support@weave.works''],
                [''tag'', ''--force'', ''--annotate'', ''--message'', ''Sync pointer'', ''flux-sync'', ''HEAD'']]\<rparr>"
  let ?t3 = "\<lparr>world = repo_moved,
         traced = [[''config'', ''user.name'', ''Weave Flux''], [''config'', ''user.email'', ''support@weave.works''],
                   [''tag'', ''--force'', ''--annotate'', ''--message'', ''Sync pointer'', ''flux-sync'', ''HEAD''],
                   [''push'', ''--force'', ''git@example.com:flux/config.git'', ''tag'', ''flux-sync'']]\<rparr>"
  have h1: "execGitCmd fake_os
              ([''tag'', ''--force'', ''--annotate'', ''--message'', markerMessage marker0]
               @ (if (if markerSigningKey marker0 = [] then signingKey provider0 else markerSigningKey marker0) \<noteq> []
                  then [''--local-user='' @ (if markerSigningKey marker0 = [] then signingKey provider0 else markerSigningKey marker0)]
                  else [])
               @ [syncTag provider0, Revision marker0])
              (inDir (workingDir provider0))
              (snd (config fake_os True (workingDir provider0) (userName provider0) (userEmail provider0) (sys0 repo_ahead)))
            = (None, [], ?t2)"
    by code_simp
  have h2: "execGitCmd fake_os [''push'', ''--force'', upstreamURL provider0, ''tag'', syncTag provider0]
              (inDir (workingDir provider0)) ?t2
            = (Some (ErrorString ''fatal: Could not read from remote repository.''), [], ?t3)"
    by code_simp
  from UpdateMarker_push_failure [OF h1 h2] h1 h2 show ?thesis
    by (simp add: provider0_def marker0_def)
qed

text \<open>
  C1, as stated, fails: the upstream rejects the push, \<open>UpdateMarker\<close> reports the failure
  and leaves the upstream as it was, but \<open>GetRevision\<close>, which returned \<open>c1\<close> before the
  call, returns \<open>c2\<close> after it.
\<close>

theorem failed_push_moves_marker:
  "fst (UpdateMarker fake_os True provider0 marker0 (sys0 repo_ahead))
     = Some (Wrapped (ErrorString ''fatal: Could not read from remote repository.'') ''pushing tag to origin'') \<and>
   fst (GetRevision fake_os provider0 (sys0 repo_ahead)) = (''c1'', None) \<and>
   fst (GetRevision fake_os provider0 (snd (UpdateMarker fake_os True provider0 marker0 (sys0 repo_ahead)))) = (''c2'', None) \<and>
   upstreamRefs (world (snd (UpdateMarker fake_os True provider0 marker0 (sys0 repo_ahead)))) = upstreamRefs repo_ahead"
  by code_simp

text \<open>
  C2, as amended. With no prior write (and after \<open>DeleteMarker\<close>) \<open>GetRevision\<close> of the
  resource-backed provider returns the empty revision with a nil error; there is no
  separate not-found result. After \<open>UpdateMarker\<close> it returns the revision of the action.
  The stand-in for a ConfigMap behaves in the same way.
\<close>

theorem Native_GetRevision_unset:
  "Native_GetRevision p nativeShim_zero = (([], None), nativeShim_zero)
   \<and> fst (Native_GetRevision p (snd (Native_DeleteMarker p shim))) = ([], None)
   \<and> fst (Native_GetRevision p (snd (Native_UpdateMarker p a shim))) = (Revision a, None)
   \<and> getConfigMapSyncMarkerRevision configMapShim_zero = (([], None), configMapShim_zero)
   \<and> fst (getConfigMapSyncMarkerRevision (snd (updateConfigMapState name a cm))) = (Revision a, None)"
  by (simp add: Native_GetRevision_def Native_DeleteMarker_def Native_UpdateMarker_def nativeShim_zero_def
        getConfigMapSyncMarkerRevision_def configMapShim_zero_def updateConfigMapState_def)

text \<open>
  C2, as stated, fails: the result for a marker that was never written is the zero-value
  revision with a nil error, the same result as for a marker written with an empty
  revision.
\<close>

theorem unset_marker_reads_as_empty_revision:
  "fst (Native_GetRevision NewNativeSyncProvider nativeShim_zero) = ([], None) \<and>
   fst (Native_GetRevision NewNativeSyncProvider
          (snd (Native_UpdateMarker NewNativeSyncProvider \<lparr>markerSigningKey = [], Revision = [], markerMessage = ''Sync pointer''\<rparr> nativeShim_zero)))
     = fst (Native_GetRevision NewNativeSyncProvider nativeShim_zero)"
  by code_simp

section \<open>Notes on the fake process layer\<close>

lemma runGit_fake: "runGit fake_os = fake_git"
  by (simp add: fake_os_def)

lemma fake_git_ignores: "fake_git d e args w = fake_git [] [] args w"
  by (simp add: fake_git_def)

lemma live_ok: "ctxAfter (okResult out) = CtxLive"
  by (simp add: okResult_def)

lemma live_fail: "ctxAfter (failResult code msg) = CtxLive"
  by (simp add: failResult_def)

lemma fake_tag_live: "ctxAfter (fst (fake_tag rest w)) = CtxLive"
  by (simp add: fake_tag_def Let_def live_ok live_fail split: option.splits prod.splits)

lemma fake_push_live: "ctxAfter (fst (fake_push rest w)) = CtxLive"
  by (simp add: fake_push_def live_ok live_fail split: option.splits)

lemma fake_rev_list_live: "ctxAfter (fst (fake_rev_list rest w)) = CtxLive"
  by (simp add: fake_rev_list_def live_ok live_fail split: option.splits)

lemma fake_commit_live: "ctxAfter (fst (fake_commit w)) = CtxLive"
  by (simp add: fake_commit_def live_ok live_fail split: list.splits)

lemma fake_notes_live: "ctxAfter (fst (fake_notes rest w)) = CtxLive"
  by (simp add: fake_notes_def live_ok live_fail split: option.splits list.splits)

lemma fake_git_live:
  "ctxAfter (fst (fake_git d e args w)) = CtxLive"
  by (simp add: fake_git_def live_ok live_fail fake_tag_live fake_push_live fake_rev_list_live
        fake_commit_live fake_notes_live split: list.splits)


lemma fake_exec_err:
  "(fst (execGitCmd fake_os args cfg s) = None) = (runErr (fst (fake_git [] [] args (world s))) = None)"
  using fake_git_live [of "[]" "[]" args "world s"]
  by (simp add: execGitCmd_def trace_def Let_def case_prod_beta runGit_fake fake_git_ignores [of "cmdDir cfg"]
        split: option.splits)

lemma fake_exec_out:
  "fst (snd (execGitCmd fake_os args cfg s)) = stdout (fst (fake_git [] [] args (world s)))"
  using fake_git_live [of "[]" "[]" args "world s"]
  by (simp add: execGitCmd_def trace_def Let_def case_prod_beta runGit_fake fake_git_ignores [of "cmdDir cfg"])

lemma fake_exec_world:
  "world (snd (snd (execGitCmd fake_os args cfg s))) = snd (fake_git [] [] args (world s))"
  using fake_git_live [of "[]" "[]" args "world s"]
  by (simp add: execGitCmd_def trace_def Let_def case_prod_beta runGit_fake fake_git_ignores [of "cmdDir cfg"])


lemma fake_git_diff:
  "fake_git d e (''diff'' # rest) w = (if treeDirty w then (failResult ''1'' [], w) else (okResult [], w))"
  by (simp add: fake_git_def)

lemma fake_git_commit: "fake_git d e (''commit'' # rest) w = fake_commit w"
  by (simp add: fake_git_def)

lemma fake_git_rev_list: "fake_git d e (''rev-list'' # rest) w = fake_rev_list rest w"
  by (simp add: fake_git_def)

lemma fake_git_notes: "fake_git d e (''notes'' # rest) w = fake_notes rest w"
  by (simp add: fake_git_def)

lemma fake_git_push: "fake_git d e (''push'' # rest) w = fake_push rest w"
  by (simp add: fake_git_def)

lemma fake_exec_failed:
  "(\<exists>y. fst (execGitCmd fake_os args cfg s) = Some y) = (runErr (fst (fake_git [] [] args (world s))) \<noteq> None)"
  using fake_exec_err [of args cfg s] by (metis not_None_eq)

lemma check_fake:
  "fst (check fake_os d ps s) = treeDirty (world s) \<and> world (snd (check fake_os d ps s)) = world s"
  by (simp add: check_def Let_def case_prod_beta fake_exec_failed fake_exec_world fake_git_diff
        okResult_def failResult_def)

lemma commit_via_exec:
  "\<exists>rest. commit E d a s =
           (map_option (\<lambda>e. Wrapped e ''git commit'') (fst (execGitCmd E (''commit'' # rest) (inDir d) s)),
            snd (snd (execGitCmd E (''commit'' # rest) (inDir d) s)))"
  by (intro exI [of _ "[''--no-verify'', ''--all'', ''--message'', Message a]
                 @ (if Author a \<noteq> [] then [''--author'', Author a] else [])
                 @ (if SigningKey a \<noteq> [] then [''--gpg-sign='' @ SigningKey a] else [])"])
     (simp add: commit_def Let_def case_prod_beta split: option.splits)

lemma commit_fake:
  assumes "fst (commit fake_os d a s) = None"
  shows "treeDirty (world s) \<and> freshIds (world s) \<noteq> [] \<and>
         world (snd (commit fake_os d a s)) =
           (world s)\<lparr>localRefs := setRef (headBranch (world s)) (hd (freshIds (world s))) (localRefs (world s)),
                      treeDirty := False, freshIds := tl (freshIds (world s))\<rparr>"
proof -
  obtain rest where
    c: "commit fake_os d a s =
           (map_option (\<lambda>e. Wrapped e ''git commit'') (fst (execGitCmd fake_os (''commit'' # rest) (inDir d) s)),
            snd (snd (execGitCmd fake_os (''commit'' # rest) (inDir d) s)))"
    using commit_via_exec [of fake_os d a s] by blast
  have "fst (execGitCmd fake_os (''commit'' # rest) (inDir d) s) = None"
    using assms c by simp
  then have r: "runErr (fst (fake_commit (world s))) = None"
    by (simp add: fake_exec_err fake_git_commit)
  have w': "world (snd (commit fake_os d a s)) = snd (fake_commit (world s))"
    using c by (simp add: fake_exec_world fake_git_commit)
  from r w' show ?thesis
    by (cases "freshIds (world s)")
       (simp_all add: fake_commit_def okResult_def failResult_def split: if_splits)
qed

lemma refRevision_fake_world:
  "world (snd (refRevision fake_os d ref s)) = world s"
  by (simp add: refRevision_def Let_def case_prod_beta fake_exec_world fake_git_rev_list fake_rev_list_def
        split: option.splits)

lemma refRevision_fake:
  assumes "resolveRev (world s) ref = Some k"
  shows "fst (refRevision fake_os d ref s) = (TrimSpace (k @ [newline]), None)"
proof -
  define x where "x = execGitCmd fake_os [''rev-list'', ''--max-count'', ''1'', ref] (inDir d) s"
  have g: "fake_git [] [] [''rev-list'', ''--max-count'', ''1'', ref] (world s) = (okResult (k @ [newline]), world s)"
    using assms by (simp add: fake_git_rev_list fake_rev_list_def)
  have e: "fst x = None"
    unfolding x_def by (simp add: fake_exec_err g okResult_def)
  have o: "fst (snd x) = k @ [newline]"
    unfolding x_def by (simp add: fake_exec_out g okResult_def)
  show ?thesis
    using e o unfolding x_def by (simp add: refRevision_def Let_def case_prod_beta)
qed

lemma refExists_fake_world:
  "world (snd (refExists fake_os d ref s)) = world s"
  by (simp add: refExists_def Let_def case_prod_beta fake_exec_world fake_git_rev_list fake_rev_list_def
        split: option.splits)

lemma fake_push_local:
  "localRefs (snd (fake_push rest w)) = localRefs w \<and> noteStore (snd (fake_push rest w)) = noteStore w
   \<and> headBranch (snd (fake_push rest w)) = headBranch w"
  by (simp add: fake_push_def split: option.splits)

lemma push_fake_local:
  "localRefs (world (snd (push fake_os d u refs s))) = localRefs (world s)
   \<and> noteStore (world (snd (push fake_os d u refs s))) = noteStore (world s)
   \<and> headBranch (world (snd (push fake_os d u refs s))) = headBranch (world s)"
  by (simp add: push_def Let_def case_prod_beta fake_exec_world fake_git_push fake_push_local
        split: option.splits)


lemma addNote_fake:
  assumes "fst (addNote J fake_os d rv r n s) = None"
  shows "\<exists>b k. Marshal J n = Inr b \<and> resolveRev (world s) rv = Some k \<and> freshIds (world s) \<noteq> [] \<and>
           world (snd (addNote J fake_os d rv r n s)) =
             (world s)\<lparr>noteStore := ((expandNotesRef r, k), b) # noteStore (world s),
                        localRefs := setRef (expandNotesRef r) (hd (freshIds (world s))) (localRefs (world s)),
                        freshIds := tl (freshIds (world s))\<rparr>"
proof (cases "Marshal J n")
  case (Inl e)
  then show ?thesis
    using assms by (simp add: addNote_def)
next
  case (Inr b)
  define x where "x = execGitCmd fake_os [''notes'', ''--ref'', r, ''add'', ''--message'', b, rv] (inDir d) s"
  have a: "addNote J fake_os d rv r n s = (fst x, snd (snd x))"
    using Inr unfolding x_def by (simp add: addNote_def Let_def case_prod_beta)
  have "fst x = None"
    using assms a by simp
  then have r: "runErr (fst (fake_notes [''--ref'', r, ''add'', ''--message'', b, rv] (world s))) = None"
    unfolding x_def by (simp add: fake_exec_err fake_git_notes)
  have w: "world (snd (addNote J fake_os d rv r n s)) = snd (fake_notes [''--ref'', r, ''add'', ''--message'', b, rv] (world s))"
    using a unfolding x_def by (simp add: fake_exec_world fake_git_notes)
  obtain k where k: "resolveRev (world s) rv = Some k"
    using r by (cases "resolveRev (world s) rv") (simp_all add: fake_notes_def failResult_def)
  have m: "map_of (noteStore (world s)) (expandNotesRef r, k) = None \<and> freshIds (world s) \<noteq> []"
    using r k
    by (cases "map_of (noteStore (world s)) (expandNotesRef r, k)"; cases "freshIds (world s)")
       (simp_all add: fake_notes_def failResult_def)
  then obtain i rest where f: "freshIds (world s) = i # rest"
    by (cases "freshIds (world s)") auto
  have "snd (fake_notes [''--ref'', r, ''add'', ''--message'', b, rv] (world s)) =
          (world s)\<lparr>noteStore := ((expandNotesRef r, k), b) # noteStore (world s),
                     localRefs := setRef (expandNotesRef r) (hd (freshIds (world s))) (localRefs (world s)),
                     freshIds := tl (freshIds (world s))\<rparr>"
    using k m f by (simp add: fake_notes_def)
  with Inr k m w show ?thesis
    by simp
qed

lemma getNote_fake:
  assumes "resolveRev (world s) rv = Some k"
    and "map_of (noteStore (world s)) (expandNotesRef r, k) = Some m"
    and "Decode J (m @ [newline]) = Inr n"
  shows "fst (getNote J fake_os d r rv s) = (True, None, Some n)"
proof -
  define x where "x = execGitCmd fake_os [''notes'', ''--ref'', r, ''show'', rv] (inDir d) s"
  have g: "fake_git [] [] [''notes'', ''--ref'', r, ''show'', rv] (world s) = (okResult (m @ [newline]), world s)"
    using assms(1,2) by (simp add: fake_git_notes fake_notes_def)
  have e: "fst x = None"
    unfolding x_def by (simp add: fake_exec_err g okResult_def)
  have o: "fst (snd x) = m @ [newline]"
    unfolding x_def by (simp add: fake_exec_out g okResult_def)
  show ?thesis
    using e o assms(3) unfolding x_def by (simp add: getNote_def Let_def case_prod_beta)
qed

lemma TrimSpace_line:
  assumes "\<forall>ch\<in>set x. \<not> isSpace ch"
  shows "TrimSpace (x @ [newline]) = x"
proof -
  have nl: "isSpace newline"
    by (simp add: isSpace_def newline_def)
  have d1: "dropWhile isSpace (x @ [newline]) = (if x = [] then [] else x @ [newline])"
    using assms nl by (cases x) simp_all
  have keep: "dropWhile isSpace y = y" if "\<forall>ch\<in>set y. \<not> isSpace ch" for y
    using that by (cases y) simp_all
  have d2: "dropWhile isSpace (rev x) = rev x"
    using assms by (intro keep) simp
  show ?thesis
    using d1 d2 nl by (simp add: TrimSpace_def)
qed

lemma expandNotesRef_prefix: "prefix ''refs/notes/'' (expandNotesRef r)"
  by (auto simp: expandNotesRef_def prefix_def)

lemma expandNotesRef_idem: "expandNotesRef (expandNotesRef r) = expandNotesRef r"
  using expandNotesRef_prefix [of r] by (simp add: expandNotesRef_def [of "expandNotesRef r"])

lemma branch_is_no_notes_ref:
  "prefix ''refs/heads/'' x \<Longrightarrow> x \<noteq> expandNotesRef r"
  using expandNotesRef_prefix [of r] by (auto simp: prefix_def)

lemma map_of_setRef_same: "map_of (setRef k v rs) k = Some v"
  by (simp add: setRef_def)

lemma map_of_dropped: "k' \<noteq> k \<Longrightarrow> map_of (filter (\<lambda>kv. fst kv \<noteq> k) rs) k' = map_of rs k'"
  by (induction rs) auto

lemma map_of_setRef_other: "k' \<noteq> k \<Longrightarrow> map_of (setRef k v rs) k' = map_of rs k'"
  by (simp add: setRef_def map_of_dropped)

lemma resolve_head:
  "resolveRev w ''HEAD'' = map_of (localRefs w) (headBranch w)"
  by (simp add: resolveRev_def)

lemma resolve_tip:
  assumes "map_of (localRefs w) (headBranch w) = Some k"
  shows "resolveRev w k = Some k"
proof -
  have "(headBranch w, k) \<in> set (localRefs w)"
    using assms by (rule map_of_SomeD)
  then have "k \<in> snd ` set (localRefs w)"
    by force
  with assms show ?thesis
    by (simp add: resolveRev_def)
qed

text \<open>\<open>Clone\<close> stores the full name of the configured notes ref in the checkout it returns.\<close>

lemma getNotesRef_fake:
  assumes "\<forall>ch\<in>set r. \<not> isSpace ch"
  shows "fst (getNotesRef fake_os d r s) = (expandNotesRef r, None)"
proof -
  define x where "x = execGitCmd fake_os [''notes'', ''--ref'', r, ''get-ref''] (inDir d) s"
  have g: "fake_git [] [] [''notes'', ''--ref'', r, ''get-ref''] (world s) = (okResult (expandNotesRef r @ [newline]), world s)"
    by (simp add: fake_git_notes fake_notes_def)
  have e: "fst x = None"
    unfolding x_def by (simp add: fake_exec_err g okResult_def)
  have o: "fst (snd x) = expandNotesRef r @ [newline]"
    unfolding x_def by (simp add: fake_exec_out g okResult_def)
  have clean: "\<forall>ch\<in>set (expandNotesRef r). \<not> isSpace ch"
    using assms by (auto simp: expandNotesRef_def isSpace_def)
  show ?thesis
    using e o TrimSpace_line [OF clean] unfolding x_def
    by (simp add: getNotesRef_def Let_def case_prod_beta)
qed

lemma Clone_resolves_notes_ref:
  assumes "Clone fake_os nameFirst r conf s = ((Some c, e), s')"
    and "\<forall>ch\<in>set (NotesRef conf). \<not> isSpace ch"
  shows "realNotesRef c = expandNotesRef (NotesRef (checkoutConfig c))"
proof -
  have g: "fst (fst (getNotesRef fake_os d (NotesRef conf) t)) = expandNotesRef (NotesRef conf)" for d t
    using getNotesRef_fake [OF assms(2), of d t] by simp
  show ?thesis
    using assms(1)
    by (auto simp: Clone_def Let_def split: prod.splits option.splits)
       (metis g fst_conv)+
qed

text \<open>
  C6. On the fake process layer, for every checkout whose resolved notes ref is the full
  name of its configured one (as \<open>Clone\<close> resolves it), every commit action and every note
  payload that the JSON codec decodes back from its own encoding: when \<open>CommitAndPush\<close>
  with that note succeeds, \<open>HeadRevision\<close> succeeds and \<open>GetNote\<close> for the revision it
  returns finds a note and decodes the original payload. (The repository is one whose
  \<open>HEAD\<close> is on a branch and whose commit ids contain no white space.)
\<close>

theorem note_round_trip:
  fixes J :: "'n codec"
  assumes ok: "CommitAndPush J fake_os c a (Some n) s = (None, s')"
    and ref: "realNotesRef c = expandNotesRef (NotesRef (checkoutConfig c))"
    and law: "\<forall>b. Marshal J n = Inr b \<longrightarrow> Decode J (b @ [newline]) = Inr n"
    and branch: "prefix ''refs/heads/'' (headBranch (world s))"
    and ids: "\<forall>x\<in>set (freshIds (world s)). \<forall>ch\<in>set x. \<not> isSpace ch"
  shows "\<exists>rv s''. HeadRevision fake_os c s' = ((rv, None), s'')
           \<and> fst (GetNote J fake_os c rv s'') = (True, None, Some n)"
proof -
  define conf where "conf = checkoutConfig c"
  define d where "d = checkoutDir c"
  define w0 where "w0 = world s"
  define R where "R = expandNotesRef (NotesRef conf)"
  define hb where "hb = headBranch w0"
  have hbR: "hb \<noteq> R"
    using branch unfolding hb_def w0_def R_def by (rule branch_is_no_notes_ref)
  obtain ch s1 where c1: "check fake_os d (Paths conf) s = (ch, s1)"
    by (metis surj_pair)
  have ch: "ch = treeDirty w0" and ws1: "world s1 = w0"
    using check_fake [of d "Paths conf" s] c1 by (simp_all add: w0_def)
  have chT: "ch"
  proof (rule ccontr)
    assume "\<not> ch"
    then have "fst (CommitAndPush J fake_os c a (Some n) s) = Some ErrNoChanges"
      using c1 unfolding conf_def d_def by (simp add: CommitAndPush_def Let_def)
    with ok show False by simp
  qed
  define a1 where "a1 = a\<lparr>Message := Message a @ SkipMessage conf\<rparr>"
  define a2 where "a2 = (if SigningKey a1 = [] then a1\<lparr>SigningKey := ConfigSigningKey conf\<rparr> else a1)"
  obtain e1 s2 where c2: "commit fake_os d a2 s1 = (e1, s2)"
    by (metis surj_pair)
  have e1: "e1 = None"
  proof (cases e1)
    case (Some x)
    then have "fst (CommitAndPush J fake_os c a (Some n) s) = Some x"
      using c1 c2 chT unfolding conf_def d_def a2_def a1_def by (simp add: CommitAndPush_def Let_def)
    with ok show ?thesis by simp
  qed simp
  have cf: "freshIds w0 \<noteq> [] \<and>
         world s2 = w0\<lparr>localRefs := setRef hb (hd (freshIds w0)) (localRefs w0),
                      treeDirty := False, freshIds := tl (freshIds w0)\<rparr>"
    using commit_fake [of d a2 s1] c2 e1 ws1 by (simp add: hb_def)
  define k where "k = hd (freshIds w0)"
  have kclean: "\<forall>ch\<in>set k. \<not> isSpace ch"
    using ids cf unfolding k_def w0_def by (cases "freshIds (world s)") simp_all
  have tip2: "map_of (localRefs (world s2)) (headBranch (world s2)) = Some k"
    using cf by (simp add: k_def hb_def map_of_setRef_same)
  obtain t where h2: "HeadRevision fake_os c s2 = ((k, None), t)" and wt: "world t = world s2"
    using refRevision_fake [of s2 "''HEAD''" k d] refRevision_fake_world [of d "''HEAD''" s2] tip2 kclean
    by (cases "HeadRevision fake_os c s2") (simp add: HeadRevision_def d_def resolve_head TrimSpace_line)
  obtain e2 s3 where c3: "addNote J fake_os d k (NotesRef conf) n t = (e2, s3)"
    by (metis surj_pair)
  have e2: "e2 = None"
  proof (cases e2)
    case (Some x)
    then have "fst (CommitAndPush J fake_os c a (Some n) s) = Some x"
      using c1 c2 h2 c3 chT e1 unfolding conf_def d_def a2_def a1_def by (simp add: CommitAndPush_def Let_def)
    with ok show ?thesis by simp
  qed simp
  obtain b k' where mb: "Marshal J n = Inr b" and rk: "resolveRev (world t) k = Some k'"
    and ws3: "world s3 = (world t)\<lparr>noteStore := ((R, k'), b) # noteStore (world t),
                        localRefs := setRef R (hd (freshIds (world t))) (localRefs (world t)),
                        freshIds := tl (freshIds (world t))\<rparr>"
    using addNote_fake [of J d k "NotesRef conf" n t] c3 e2 unfolding R_def by auto
  have "resolveRev (world t) k = Some k"
    using tip2 wt by (intro resolve_tip) simp
  with rk have k': "k' = k"
    by simp
  have tip3: "map_of (localRefs (world s3)) (headBranch (world s3)) = Some k"
    using ws3 wt cf hbR unfolding hb_def by (simp add: map_of_setRef_other map_of_setRef_same k_def)
  have note3: "map_of (noteStore (world s3)) (R, k) = Some b"
    using ws3 k' by simp
  obtain ok3 e3 s4 where c4: "refExists fake_os d (realNotesRef c) s3 = ((ok3, e3), s4)"
    by (metis surj_pair)
  have ws4: "world s4 = world s3"
    using refExists_fake_world [of d "realNotesRef c" s3] c4 by simp
  have go: "\<not> (\<not> ok3 \<and> e3 \<noteq> None)"
  proof
    assume "\<not> ok3 \<and> e3 \<noteq> None"
    then have "fst (CommitAndPush J fake_os c a (Some n) s) = e3"
      using c1 c2 h2 c3 c4 chT e1 e2 unfolding conf_def d_def a2_def a1_def
      by (auto simp: CommitAndPush_def Let_def)
    with ok \<open>\<not> ok3 \<and> e3 \<noteq> None\<close> show False by simp
  qed
  define refs where "refs = (if ok3 then [Branch conf] @ [realNotesRef c] else [Branch conf])"
  have s': "s' = snd (push fake_os d (URL (upstream c)) refs s4)"
    using ok c1 c2 h2 c3 c4 chT e1 e2 go unfolding conf_def d_def a2_def a1_def refs_def
    by (auto simp: CommitAndPush_def Let_def split: prod.splits option.splits)
  have loc: "localRefs (world s') = localRefs (world s3) \<and> noteStore (world s') = noteStore (world s3)
             \<and> headBranch (world s') = headBranch (world s3)"
    using push_fake_local [of d "URL (upstream c)" refs s4] s' ws4 by simp
  have tip': "map_of (localRefs (world s')) (headBranch (world s')) = Some k"
    using tip3 loc by simp
  obtain s'' where h': "HeadRevision fake_os c s' = ((k, None), s'')" and ws'': "world s'' = world s'"
    using refRevision_fake [of s' "''HEAD''" k d] refRevision_fake_world [of d "''HEAD''" s'] tip' kclean
    by (cases "HeadRevision fake_os c s'") (simp add: HeadRevision_def d_def resolve_head TrimSpace_line)
  have r'': "resolveRev (world s'') k = Some k"
    using tip' ws'' by (intro resolve_tip) simp
  have n'': "map_of (noteStore (world s'')) (expandNotesRef (realNotesRef c), k) = Some b"
    using note3 loc ws'' ref by (simp add: R_def conf_def expandNotesRef_idem)
  have dec: "Decode J (b @ [newline]) = Inr n"
    using law mb by simp
  have "fst (GetNote J fake_os c k s'') = (True, None, Some n)"
    unfolding GetNote_def by (rule getNote_fake [OF r'' n'' dec])
  with h' show ?thesis
    by blast
qed

theorem note_round_trip_witness:
  "CommitAndPush textCodec fake_os checkout0 action0 (Some ''job-1'') (sys0 repo_dirty)
     = (None, snd (CommitAndPush textCodec fake_os checkout0 action0 (Some ''job-1'') (sys0 repo_dirty))) \<and>
   realNotesRef checkout0 = expandNotesRef (NotesRef (checkoutConfig checkout0)) \<and>
   Decode textCodec ([CHR 0x22] @ ''job-1'' @ [CHR 0x22] @ [newline]) = Inr ''job-1'' \<and>
   prefix ''refs/heads/'' (headBranch (world (sys0 repo_dirty))) \<and>
   (\<exists>rv s''. HeadRevision fake_os checkout0
                (snd (CommitAndPush textCodec fake_os checkout0 action0 (Some ''job-1'') (sys0 repo_dirty)))
                = ((rv, None), s'')
            \<and> fst (GetNote textCodec fake_os checkout0 rv s'') = (True, None, Some ''job-1''))"
proof -
  have ok: "CommitAndPush textCodec fake_os checkout0 action0 (Some ''job-1'') (sys0 repo_dirty)
     = (None, snd (CommitAndPush textCodec fake_os checkout0 action0 (Some ''job-1'') (sys0 repo_dirty)))"
    by code_simp
  have ref: "realNotesRef checkout0 = expandNotesRef (NotesRef (checkoutConfig checkout0))"
    by code_simp
  have dec: "Decode textCodec ([CHR 0x22] @ ''job-1'' @ [CHR 0x22] @ [newline]) = Inr ''job-1''"
    by code_simp
  have law: "\<forall>b. Marshal textCodec ''job-1'' = Inr b \<longrightarrow> Decode textCodec (b @ [newline]) = Inr ''job-1''"
    using dec by (simp add: textCodec_def)
  have branch: "prefix ''refs/heads/'' (headBranch (world (sys0 repo_dirty)))"
    by code_simp
  have ids: "\<forall>x\<in>set (freshIds (world (sys0 repo_dirty))). \<forall>ch\<in>set x. \<not> isSpace ch"
    by code_simp
  from note_round_trip [OF ok ref law branch ids] ok ref dec branch show ?thesis
    by blast
qed

end
